theory Spec2Isabelle
  imports Complex_Main "HOL-Library.Option_ord"
begin

text \<open>
  A model of three files of pywws: the script \<^verbatim>\<open>bulk_metoffice_generator.py\<close> and the
  services \<^verbatim>\<open>cwop.py\<close> and \<^verbatim>\<open>openweathermap.py\<close>. Every function is translated with
  its exceptions as values of a sum type. The model follows Python 2, the language of
  the script: \<^verbatim>\<open>None\<close> is smaller than every number, \<^verbatim>\<open>strftime\<close> raises before the
  year 1900, and byte strings and text concatenate.
\<close>

section \<open>Time, errors and readings\<close>

text \<open>
  A Python \<^verbatim>\<open>datetime\<close> is the number of microseconds since \<^verbatim>\<open>datetime.min\<close>
  (0001-01-01 00:00:00); a \<^verbatim>\<open>timedelta\<close> is a number of microseconds. A datetime
  lies between \<^verbatim>\<open>datetime.min\<close> and \<^verbatim>\<open>datetime.max\<close> (9999-12-31 23:59:59.999999),
  and arithmetic that leaves this range raises OverflowError.
\<close>

type_synonym datetime = int
type_synonym timedelta = int

definition datetime_min :: datetime where
  "datetime_min = 0"

definition datetime_max :: datetime where
  "datetime_max = 315537897599999999"

text \<open>1900-01-01 00:00:00: Python 2 refuses \<^verbatim>\<open>strftime\<close> on earlier years.\<close>

definition year_1900 :: datetime where
  "year_1900 = 59926608000000000"

definition HOUR :: timedelta where
  "HOUR = 3600 * 1000000"

definition DAY :: timedelta where
  "DAY = 24 * 3600 * 1000000"

definition REPORTS_MAXIMUM_FREQUENCY :: timedelta where
  "REPORTS_MAXIMUM_FREQUENCY = 3 * 60 * 1000000"

datatype error =
    OverflowError
  | ValueError
  | TypeError
  | KeyError string
  | UnboundLocalError
  | InsufficientHistory
  | UnicodeError

text \<open>\<^verbatim>\<open>datetime - timedelta\<close>, for a positive or negative \<^verbatim>\<open>timedelta\<close>.\<close>

definition dt_sub :: "datetime \<Rightarrow> timedelta \<Rightarrow> error + datetime" where
  "dt_sub t d = (if t - d < datetime_min \<or> datetime_max < t - d then Inl OverflowError else Inr (t - d))"

text \<open>
  A calibrated reading. Every sensor value may be \<^verbatim>\<open>None\<close> (the station lost contact
  with the sensor), which is why the generator formats through \<open>safe_format\<close>. Floats are
  modelled as reals: the properties below depend on the order and the sign of
  differences only, and NaN is left out. \<^verbatim>\<open>None\<close> is below every number, as in
  Python 2 and as in the order of \<^typ>\<open>real option\<close>.
\<close>

record reading =
  idx :: datetime
  temp_out :: "real option"
  hum_out :: "real option"
  rain :: "real option"
  wind_ave :: "real option"
  wind_gust :: "real option"
  wind_dir :: "real option"
  abs_pressure :: "real option"

section \<open>The reading store\<close>

text \<open>
  The reading store is \<^verbatim>\<open>pywws.DataStore\<close>, whose source is not among the files. The
  spec gives it as an ordered, time-indexed sequence of calibrated readings with
  nearest-timestamp lookup and half-open range iteration.
\<close>

type_synonym store = "reading list"

text \<open>
  Modelled from the spec: \<^verbatim>\<open>calib_data.nearest(t)\<close>, the nearest-timestamp lookup of
  the store, which is missing from the files. It returns the timestamp of the stored
  reading closest to the given instant; of two readings equally close it takes the
  earlier one. For an empty store the result is \<^verbatim>\<open>None\<close>.
\<close>

fun nearest :: "store \<Rightarrow> datetime \<Rightarrow> datetime option" where
  "nearest [] t = None"
| "nearest (r # rs) t =
     (case nearest rs t of
        None \<Rightarrow> Some (idx r)
      | Some k \<Rightarrow>
          if \<bar>idx r - t\<bar> < \<bar>k - t\<bar> \<or> (\<bar>idx r - t\<bar> = \<bar>k - t\<bar> \<and> idx r \<le> k)
          then Some (idx r) else Some k)"

text \<open>
  Modelled from the spec: \<^verbatim>\<open>calib_data[key]\<close>, the reading stored under a timestamp,
  which is missing from the files. A lookup with the result of \<open>nearest\<close> on an empty
  store fails with InsufficientHistory, one with a timestamp the store does not hold
  with KeyError.
\<close>

definition getitem :: "store \<Rightarrow> datetime option \<Rightarrow> error + reading" where
  "getitem calib_data key =
     (case key of
        None \<Rightarrow> Inl InsufficientHistory
      | Some t \<Rightarrow>
          (case find (\<lambda>r. idx r = t) calib_data of
             None \<Rightarrow> Inl (KeyError ''idx'')
           | Some r \<Rightarrow> Inr r))"

text \<open>
  Modelled from the spec: \<^verbatim>\<open>calib_data[start:stop]\<close>, the range iteration of the store,
  which is missing from the files. It yields the stored readings from \<open>start\<close> up to,
  not including, \<open>stop\<close>, in the order of the store.
\<close>

definition getslice :: "store \<Rightarrow> datetime \<Rightarrow> datetime \<Rightarrow> reading list" where
  "getslice calib_data start stop = filter (\<lambda>r. start \<le> idx r \<and> idx r < stop) calib_data"

section \<open>Windowed statistics of the bulk generator\<close>

text \<open>
  \<^verbatim>\<open>max_temp24\<close>: the reading nearest to 24 hours before the report starts the scan; the
  loop folds \<^verbatim>\<open>max\<close> over the slice up to (not including) the report, seeded with the
  report's own temperature.
\<close>

definition max_temp24 :: "store \<Rightarrow> reading \<Rightarrow> error + real option" where
  "max_temp24 calib_data report =
     (case dt_sub (idx report) DAY of
        Inl e \<Rightarrow> Inl e
      | Inr t \<Rightarrow>
          (case getitem calib_data (nearest calib_data t) of
             Inl e \<Rightarrow> Inl e
           | Inr start \<Rightarrow>
               Inr (fold (\<lambda>r max_temp. max max_temp (temp_out r))
                      (getslice calib_data (idx start) (idx report))
                      (temp_out report))))"

text \<open>The true maximum of the temperature over the stored readings of a closed window.\<close>

definition window :: "store \<Rightarrow> datetime \<Rightarrow> datetime \<Rightarrow> reading list" where
  "window calib_data lo hi = filter (\<lambda>r. lo \<le> idx r \<and> idx r \<le> hi) calib_data"

definition window_max :: "store \<Rightarrow> datetime \<Rightarrow> datetime \<Rightarrow> real option" where
  "window_max calib_data lo hi = Max (set (map temp_out (window calib_data lo hi)))"

text \<open>
  \<^verbatim>\<open>report['rain'] - reference\<close> raises TypeError when either side is \<^verbatim>\<open>None\<close>;
  \<^verbatim>\<open>max(0.0, difference)\<close> clamps the result.
\<close>

definition py_sub :: "real option \<Rightarrow> real option \<Rightarrow> error + real" where
  "py_sub a b =
     (case a of
        None \<Rightarrow> Inl TypeError
      | Some x \<Rightarrow> (case b of None \<Rightarrow> Inl TypeError | Some y \<Rightarrow> Inr (x - y)))"

definition rain_since :: "reading \<Rightarrow> real option \<Rightarrow> error + real" where
  "rain_since report reference =
     (case py_sub (rain report) reference of
        Inl e \<Rightarrow> Inl e
      | Inr d \<Rightarrow> Inr (max 0 d))"

text \<open>
  A local variable of a Python function is unbound until its first assignment; reading
  it before raises UnboundLocalError.
\<close>

datatype 'a pyvar = Unbound | Bound 'a

text \<open>
  The two loops of \<^verbatim>\<open>rain_day\<close>. The first moves \<^verbatim>\<open>midnight\<close> back a day at a time
  while the report is before it, the second forward while the report is a day or more
  after it; each iteration assigns \<^verbatim>\<open>rain_midnight = None\<close>.
\<close>

function rain_day_back ::
  "datetime \<Rightarrow> datetime \<Rightarrow> real option pyvar \<Rightarrow> error + datetime \<times> real option pyvar" where
  "rain_day_back i midnight rain_midnight =
     (if i < midnight then
        (if midnight - DAY < datetime_min then Inl OverflowError
         else rain_day_back i (midnight - DAY) (Bound None))
      else Inr (midnight, rain_midnight))"
  by pat_completeness auto
termination
  by (relation "measure (\<lambda>(i, midnight, rain_midnight). nat (midnight - i))") (auto simp: DAY_def)

function rain_day_forward ::
  "datetime \<Rightarrow> datetime \<Rightarrow> real option pyvar \<Rightarrow> error + datetime \<times> real option pyvar" where
  "rain_day_forward i midnight rain_midnight =
     (if datetime_max < midnight + DAY then Inl OverflowError
      else if midnight + DAY \<le> i then rain_day_forward i (midnight + DAY) (Bound None)
      else Inr (midnight, rain_midnight))"
  by pat_completeness auto
termination
  by (relation "measure (\<lambda>(i, midnight, rain_midnight). nat (i - midnight))") (auto simp: DAY_def)

text \<open>
  \<^verbatim>\<open>rain_day\<close>. The first argument is the value of \<^verbatim>\<open>midnight\<close> computed from the clock
  and the time zone in the function's first statement: the local midnight of the
  wall-clock day of the call, in UTC. Both \<^verbatim>\<open>midnight\<close> and \<^verbatim>\<open>rain_midnight\<close> are
  local variables, so every call starts with \<^verbatim>\<open>rain_midnight\<close> unbound. The second
  component of the result lists the arguments of the \<^verbatim>\<open>calib_data.nearest\<close> lookups
  the call made.
\<close>

definition rain_day :: "datetime \<Rightarrow> store \<Rightarrow> reading \<Rightarrow> (error + real) \<times> datetime list" where
  "rain_day now_midnight calib_data report =
     (case rain_day_back (idx report) now_midnight Unbound of
        Inl e \<Rightarrow> (Inl e, [])
      | Inr (m1, rm1) \<Rightarrow>
          (case rain_day_forward (idx report) m1 rm1 of
             Inl e \<Rightarrow> (Inl e, [])
           | Inr (midnight, rain_midnight) \<Rightarrow>
               (case rain_midnight of
                  Unbound \<Rightarrow> (Inl UnboundLocalError, [])
                | Bound None \<Rightarrow>
                    (case getitem calib_data (nearest calib_data midnight) of
                       Inl e \<Rightarrow> (Inl e, [midnight])
                     | Inr reference \<Rightarrow> (rain_since report (rain reference), [midnight]))
                | Bound (Some v) \<Rightarrow> (rain_since report (Some v), []))))"

text \<open>Successive calls of \<^verbatim>\<open>rain_day\<close> on the same wall-clock day: the lookups of all calls.\<close>

fun rain_day_lookups :: "datetime \<Rightarrow> store \<Rightarrow> reading list \<Rightarrow> datetime list" where
  "rain_day_lookups now_midnight calib_data [] = []"
| "rain_day_lookups now_midnight calib_data (report # reports) =
     snd (rain_day now_midnight calib_data report) @ rain_day_lookups now_midnight calib_data reports"

text \<open>
  The hourly rate of \<^verbatim>\<open>GenerateBulk\<close>:
  \<^verbatim>\<open>max(0.0, report['rain'] - calib_data[calib_data.nearest(report['idx'] - HOUR)]['rain'])\<close>.
\<close>

definition rain_rate :: "store \<Rightarrow> reading \<Rightarrow> error + real" where
  "rain_rate calib_data report =
     (case dt_sub (idx report) HOUR of
        Inl e \<Rightarrow> Inl e
      | Inr t \<Rightarrow>
          (case getitem calib_data (nearest calib_data t) of
             Inl e \<Rightarrow> Inl e
           | Inr reference \<Rightarrow> rain_since report (rain reference)))"

section \<open>The bulk generator\<close>

text \<open>
  A value stored in the row dictionary: \<^verbatim>\<open>None\<close>, the string \<^verbatim>\<open>format % value\<close>
  (kept as the pair of format and value; the rendering of digits is not modelled), the
  string \<^verbatim>\<open>idx.strftime(format)\<close>, or a number stored as it is.
\<close>

datatype cell =
    PyNone
  | Formatted string real
  | Strftime string datetime
  | Number real

definition truthy :: "real option \<Rightarrow> bool" where
  "truthy value = (case value of None \<Rightarrow> False | Some v \<Rightarrow> v \<noteq> 0)"

definition safe_format :: "string \<Rightarrow> real option \<Rightarrow> cell" where
  "safe_format format value = (if truthy value then Formatted format (the value) else PyNone)"

definition FIELDS :: "string list" where
  "FIELDS = [''Id'', ''Report Date / Time'', ''Concrete Temp.'', ''Day of Gales'',
     ''Soil Temp. (at 10cm)'', ''Wet Bulb'', ''Soil Temp. (at 30cm)'',
     ''Max. Temp. (last 24hr)'', ''Total Cloud Cover'', ''Wind Gust'',
     ''Day of Hail'', ''Wind Gust Direction'', ''Present Weather'',
     ''Ground State'', ''Soil Temp. (at 100cm)'', ''Grass Temp.'', ''Sunshine'',
     ''Day of Snow'', ''Mean Sea-Level Pressure'', ''Pressure (At Station)'',
     ''Relative Humidity'', ''Weather Diary'', ''Rainfall Accumulation'',
     ''Visibility'', ''Min. Temp. (last 24hr)'', ''Wind Direction'', ''Wind Speed'',
     ''Air Temperature'', ''Snow Depth'', ''Soil Moisture'', ''Dew Point'',
     ''Day of Thunder'', ''Rainfall Rate'', ''Flood Impacts'', ''Wind Impacts'',
     ''Coastal Impacts'', ''Wild Fire Impacts'', ''Land Slide Impacts'',
     ''Poor Visibility Impacts'', ''Snow Impacts'', ''Ice Impacts'',
     ''Lightning Impacts'', ''Other Impacts'']"

text \<open>
  What the generator takes from outside the three source files: the two functions of
  \<^verbatim>\<open>pywws.conversions\<close> it calls (the spec gives them as pure functions whose
  ``undefined'' result is distinct from zero), and the clock: \<open>now_midnight\<close> gives, for
  the report being processed, the local midnight of the wall-clock day at that moment.
\<close>

record environment =
  dew_point :: "real option \<Rightarrow> real option \<Rightarrow> real option"
  winddir_degrees :: "real option \<Rightarrow> real option"
  now_midnight :: "reading \<Rightarrow> datetime"

text \<open>
  The body of the loop of \<^verbatim>\<open>GenerateBulk\<close> after the interval test: the dictionary
  \<^verbatim>\<open>csv_report\<close>, in the order of its assignments. The first statement that raises ends
  the computation: \<^verbatim>\<open>strftime\<close> (Python 2: ValueError before 1900), \<^verbatim>\<open>max_temp24\<close>,
  the hourly rate, \<^verbatim>\<open>rain_day\<close>, and \<^verbatim>\<open>"%.2f" % report['abs_pressure']\<close> (TypeError
  on \<^verbatim>\<open>None\<close>).
\<close>

definition csv_row :: "environment \<Rightarrow> store \<Rightarrow> reading \<Rightarrow> error + (string \<times> cell) list" where
  "csv_row env calib_data report =
     (if idx report < year_1900 then Inl ValueError
      else
        (case max_temp24 calib_data report of
           Inl e \<Rightarrow> Inl e
         | Inr max_temp \<Rightarrow>
             (case rain_rate calib_data report of
                Inl e \<Rightarrow> Inl e
              | Inr rate \<Rightarrow>
                  (case fst (rain_day (now_midnight env report) calib_data report) of
                     Inl e \<Rightarrow> Inl e
                   | Inr accumulation \<Rightarrow>
                       (case abs_pressure report of
                          None \<Rightarrow> Inl TypeError
                        | Some pressure \<Rightarrow>
                            Inr [(''Report Date / Time'', Strftime ''%d/%m/%Y %H:%M'' (idx report)),
                                 (''Max. Temp. (last 24hr)'', safe_format ''%.2f'' max_temp),
                                 (''Air Temperature'', safe_format ''%.2f'' (temp_out report)),
                                 (''Dew Point'',
                                    safe_format ''%.2f'' (dew_point env (temp_out report) (hum_out report))),
                                 (''Rainfall Rate'', safe_format ''%.2f'' (Some rate)),
                                 (''Rainfall Accumulation'', safe_format ''%.2f'' (Some accumulation)),
                                 (''Wind Speed'', safe_format ''%.2f'' (wind_ave report)),
                                 (''Wind Gust'', safe_format ''%.2f'' (wind_gust report)),
                                 (''Wind Direction'',
                                    safe_format ''%d'' (winddir_degrees env (wind_dir report))),
                                 (''Relative Humidity'',
                                    (case hum_out report of None \<Rightarrow> PyNone | Some h \<Rightarrow> Number h)),
                                 (''Pressure (At Station)'', Formatted ''%.2f'' pressure)])))))"

text \<open>
  \<^verbatim>\<open>csv.DictWriter(out_file, FIELDS).writerow\<close>: one text per field of \<open>FIELDS\<close>; a key
  the dictionary lacks and a value \<^verbatim>\<open>None\<close> are both written as the empty string.
\<close>

datatype csv_text = Empty | Text cell

definition csv_text_of :: "cell option \<Rightarrow> csv_text" where
  "csv_text_of v = (case v of None \<Rightarrow> Empty | Some PyNone \<Rightarrow> Empty | Some c \<Rightarrow> Text c)"

definition writerow :: "(string \<times> cell) list \<Rightarrow> csv_text list" where
  "writerow csv_report = map (\<lambda>field. csv_text_of (map_of csv_report field)) FIELDS"

text \<open>The text a written row holds under a column name.\<close>

definition column :: "csv_text list \<Rightarrow> string \<Rightarrow> csv_text option" where
  "column row name = map_of (zip FIELDS row) name"

text \<open>
  The loop of \<^verbatim>\<open>GenerateBulk\<close> over \<^verbatim>\<open>calib_data[start:stop]\<close>, with \<^verbatim>\<open>prev_idx\<close> as
  its state. The result is the list of rows written, each paired with the timestamp of
  the reading it was written for, and the exception that ended the run, if any.
\<close>

fun bulk_loop ::
  "environment \<Rightarrow> store \<Rightarrow> datetime \<Rightarrow> reading list \<Rightarrow> (datetime \<times> csv_text list) list \<times> error option" where
  "bulk_loop env calib_data prev_idx [] = ([], None)"
| "bulk_loop env calib_data prev_idx (report # reports) =
     (if idx report - prev_idx < REPORTS_MAXIMUM_FREQUENCY
      then bulk_loop env calib_data prev_idx reports
      else
        (case csv_row env calib_data report of
           Inl e \<Rightarrow> ([], Some e)
         | Inr csv_report \<Rightarrow>
             (case bulk_loop env calib_data (idx report) reports of
                (rows, err) \<Rightarrow> ((idx report, writerow csv_report) # rows, err))))"

definition GenerateBulk :: "environment \<Rightarrow> store \<Rightarrow> (datetime \<times> csv_text list) list \<times> error option" where
  "GenerateBulk env calib_data =
     bulk_loop env calib_data datetime_min (getslice calib_data datetime_min datetime_max)"

section \<open>Strings: \<^verbatim>\<open>str.format\<close>, \<^verbatim>\<open>int\<close>, decimal digits\<close>

text \<open>
  A format string of \<^verbatim>\<open>str.format\<close> is a list of literal pieces and named fields
  \<^verbatim>\<open>{name:s}\<close>; formatting with a dictionary that lacks a name raises KeyError for the
  first such name.
\<close>

datatype piece = Lit string | Key string

fun py_format :: "piece list \<Rightarrow> (string \<rightharpoonup> string) \<Rightarrow> error + string" where
  "py_format [] d = Inr []"
| "py_format (Lit s # ps) d =
     (case py_format ps d of Inl e \<Rightarrow> Inl e | Inr rest \<Rightarrow> Inr (s @ rest))"
| "py_format (Key k # ps) d =
     (case d k of
        None \<Rightarrow> Inl (KeyError k)
      | Some v \<Rightarrow> (case py_format ps d of Inl e \<Rightarrow> Inl e | Inr rest \<Rightarrow> Inr (v @ rest)))"


text \<open>\<^verbatim>\<open>s.encode('ASCII')\<close> raises on a character outside ASCII.\<close>

definition is_ascii :: "string \<Rightarrow> bool" where
  "is_ascii s = list_all (\<lambda>c. (of_char c :: nat) < 128) s"

definition encode_ascii :: "string \<Rightarrow> error + string" where
  "encode_ascii s = (if is_ascii s then Inr s else Inl UnicodeError)"

text \<open>
  \<^verbatim>\<open>int(s)\<close> on a string: surrounding white space is dropped, then an optional sign and
  at least one decimal digit; anything else raises ValueError.
\<close>

definition py_isspace :: "char \<Rightarrow> bool" where
  "py_isspace c = (c \<in> set [CHR '' '', CHR 0x09, CHR 0x0A, CHR 0x0B, CHR 0x0C, CHR 0x0D])"

definition strip :: "string \<Rightarrow> string" where
  "strip s = rev (dropWhile py_isspace (rev (dropWhile py_isspace s)))"

definition digit_of :: "char \<Rightarrow> nat option" where
  "digit_of c =
     (let n = (of_char c :: nat) in if 48 \<le> n \<and> n \<le> 57 then Some (n - 48) else None)"

fun digits_value :: "string \<Rightarrow> nat \<Rightarrow> nat option" where
  "digits_value [] acc = Some acc"
| "digits_value (c # cs) acc =
     (case digit_of c of None \<Rightarrow> None | Some d \<Rightarrow> digits_value cs (10 * acc + d))"

definition unsigned_int :: "string \<Rightarrow> error + int" where
  "unsigned_int s =
     (if s = [] then Inl ValueError
      else (case digits_value s 0 of None \<Rightarrow> Inl ValueError | Some n \<Rightarrow> Inr (int n)))"

definition py_int :: "string \<Rightarrow> error + int" where
  "py_int s =
     (case strip s of
        [] \<Rightarrow> Inl ValueError
      | c # cs \<Rightarrow>
          if c = CHR ''-'' then (case unsigned_int cs of Inl e \<Rightarrow> Inl e | Inr n \<Rightarrow> Inr (- n))
          else if c = CHR ''+'' then unsigned_int cs
          else unsigned_int (c # cs))"

text \<open>The decimal digits of a number, and \<^verbatim>\<open>'{:d}'.format(n)\<close>.\<close>

definition digit_char :: "nat \<Rightarrow> char" where
  "digit_char d = ''0123456789'' ! d"

function dec_digits :: "nat \<Rightarrow> string" where
  "dec_digits n = (if n < 10 then [digit_char n] else dec_digits (n div 10) @ [digit_char (n mod 10)])"
  by pat_completeness auto
termination
  by (relation "measure id") auto

definition py_str_int :: "int \<Rightarrow> string" where
  "py_str_int n = (if n < 0 then CHR ''-'' # dec_digits (nat (- n)) else dec_digits (nat n))"

text \<open>\<^verbatim>\<open>'%0Nd' % n\<close>: zeros fill the text up to N characters, the sign included.\<close>

definition py_percent_0d :: "nat \<Rightarrow> int \<Rightarrow> string" where
  "py_percent_0d width n =
     (if n < 0
      then CHR ''-'' # replicate (width - 1 - length (dec_digits (nat (- n)))) CHR ''0''
             @ dec_digits (nat (- n))
      else replicate (width - length (dec_digits (nat n))) CHR ''0'' @ dec_digits (nat n))"

section \<open>The CWOP service\<close>

text \<open>
  A socket session. Each call on the socket (\<^verbatim>\<open>sendall\<close>, \<^verbatim>\<open>recv\<close>, \<^verbatim>\<open>shutdown\<close>) takes
  the next entry of \<open>faults\<close>: \<open>None\<close> lets the call complete, \<open>Some text\<close> makes it raise
  an exception whose \<^verbatim>\<open>repr\<close> is the text (a time-out, a reset connection, an
  acknowledgement that does not decode). With no entry left the call completes.
  \<open>sent\<close> collects the data of the completed \<^verbatim>\<open>sendall\<close> calls.
\<close>

record session =
  sent :: "string list"
  faults :: "string option list"

definition socket_call :: "session \<Rightarrow> string option \<times> session" where
  "socket_call s =
     (case faults s of
        [] \<Rightarrow> (None, s)
      | f # fs \<Rightarrow> (f, s\<lparr>faults := fs\<rparr>))"

definition sendall :: "session \<Rightarrow> string \<Rightarrow> string option \<times> session" where
  "sendall s data =
     (case socket_call s of
        (Some ex, s') \<Rightarrow> (Some ex, s')
      | (None, s') \<Rightarrow> (None, s'\<lparr>sent := sent s' @ [data]\<rparr>))"

definition cwop_interval :: timedelta where
  "cwop_interval = 290 * 1000000"

definition login_template :: "piece list" where
  "login_template =
     [Lit ''user '', Key ''designator'', Lit '' pass '', Key ''passcode'',
      Lit '' vers pywws '', Key ''version'', Lit [CHR 0x0A]]"

text \<open>
  The packet's format string as \<^verbatim>\<open>upload_data\<close> assembles it. \<open>ws_type\<close> is the
  configuration entry \<^verbatim>\<open>('config', 'ws type')\<close>. The test
  \<^verbatim>\<open>not int(prepared_data['rain_hour'])\<close> is evaluated for a 3080 station only.
\<close>

definition use_illuminance :: "string option \<Rightarrow> (string \<rightharpoonup> string) \<Rightarrow> error + bool" where
  "use_illuminance ws_type prepared_data =
     (if ws_type = Some ''3080'' then
        (case prepared_data ''rain_hour'' of
           None \<Rightarrow> Inl (KeyError ''rain_hour'')
         | Some v \<Rightarrow> (case py_int v of Inl e \<Rightarrow> Inl e | Inr n \<Rightarrow> Inr (n = 0)))
      else Inr False)"

definition packet_template :: "bool \<Rightarrow> bool \<Rightarrow> piece list" where
  "packet_template illuminance altitude =
     [Key ''designator'', Lit ''>APRS,TCPIP*:@'', Key ''idx'',
      Lit ''z'', Key ''lat_loran'', Lit ''/'', Key ''lon_loran'',
      Lit ''_'', Key ''wind_dir'', Lit ''/'', Key ''wind_ave'',
      Lit ''g'', Key ''wind_gust'', Lit ''t'', Key ''temp_out'']
     @ (if illuminance then [Key ''illuminance_t'', Key ''illuminance'']
        else [Lit ''r'', Key ''rain_hour''])
     @ [Lit ''p'', Key ''rain_24hr'', Lit ''P'', Key ''rain_day'',
        Lit ''h'', Key ''hum_out'', Lit ''b'', Key ''rel_pressure'',
        Lit ''.pywws-'', Key ''version'']
     @ (if altitude then [Lit '' /A='', Key ''altitude''] else [])"

text \<open>
  The statements of \<^verbatim>\<open>upload_data\<close> before its \<^verbatim>\<open>try\<close>: the login line and the packet
  line, both encoded. An exception here leaves the function.
\<close>

definition cwop_payload :: "string option \<Rightarrow> (string \<rightharpoonup> string) \<Rightarrow> error + string \<times> string" where
  "cwop_payload ws_type prepared_data =
     (case py_format login_template prepared_data of
        Inl e \<Rightarrow> Inl e
      | Inr login_text \<Rightarrow>
     (case encode_ascii login_text of
        Inl e \<Rightarrow> Inl e
      | Inr login \<Rightarrow>
     (case use_illuminance ws_type prepared_data of
        Inl e \<Rightarrow> Inl e
      | Inr illuminance \<Rightarrow>
     (case py_format (packet_template illuminance (prepared_data ''altitude'' \<noteq> None)) prepared_data of
        Inl e \<Rightarrow> Inl e
      | Inr packet_text \<Rightarrow>
     (case encode_ascii packet_text of
        Inl e \<Rightarrow> Inl e
      | Inr packet \<Rightarrow> Inr (login, packet @ [CHR 0x0A]))))))"

text \<open>
  The \<^verbatim>\<open>try\<close> block: send the login, read the acknowledgement, send the packet, shut the
  socket down; the first exception gives \<^verbatim>\<open>(False, repr(ex))\<close>.
\<close>

definition cwop_transmit :: "session \<Rightarrow> string \<Rightarrow> string \<Rightarrow> (bool \<times> string) \<times> session" where
  "cwop_transmit s0 login packet =
     (case sendall s0 login of
        (Some ex, s1) \<Rightarrow> ((False, ex), s1)
      | (None, s1) \<Rightarrow>
     (case socket_call s1 of
        (Some ex, s2) \<Rightarrow> ((False, ex), s2)
      | (None, s2) \<Rightarrow>
     (case sendall s2 packet of
        (Some ex, s3) \<Rightarrow> ((False, ex), s3)
      | (None, s3) \<Rightarrow>
     (case socket_call s3 of
        (Some ex, s4) \<Rightarrow> ((False, ex), s4)
      | (None, s4) \<Rightarrow> ((True, ''OK''), s4)))))"

definition cwop_upload_data ::
  "string option \<Rightarrow> session \<Rightarrow> (string \<rightharpoonup> string) \<Rightarrow> (error + bool \<times> string) \<times> session" where
  "cwop_upload_data ws_type s prepared_data =
     (case cwop_payload ws_type prepared_data of
        Inl e \<Rightarrow> (Inl e, s)
      | Inr (login, packet) \<Rightarrow>
          (case cwop_transmit s login packet of (result, s') \<Rightarrow> (Inr result, s')))"

section \<open>The OpenWeatherMap service\<close>

text \<open>
  An HTTP call of the \<^verbatim>\<open>requests\<close> session either raises (with the text of the
  exception) or returns a response; \<open>json\<close> is the decoded body, \<open>None\<close> when the body is
  not JSON (\<^verbatim>\<open>rsp.json()\<close> raises ValueError).
\<close>

record response =
  status_code :: int
  rsp_text :: string
  json :: "(string \<rightharpoonup> string) option"

datatype http_result = Raises string | Returns response

definition owm_upload_data ::
  "(string \<Rightarrow> 'payload list \<Rightarrow> http_result) \<Rightarrow> 'payload \<Rightarrow> error + bool \<times> string" where
  "owm_upload_data post prepared_data =
     (case post ''http://api.openweathermap.org/data/3.0/measurements'' [prepared_data] of
        Raises ex \<Rightarrow> Inr (False, ex)
      | Returns rsp \<Rightarrow>
          if status_code rsp \<noteq> 204
          then Inr (False, ''http status: '' @ py_str_int (status_code rsp) @ '' '' @ rsp_text rsp)
          else Inr (True, ''OK''))"





record registration =
  reg_external_id :: string
  reg_name :: string
  latitude :: real
  longitude :: real
  altitude :: real



section \<open>The CWOP field template\<close>

text \<open>
  One entry of the template of \<^verbatim>\<open>cwop.py\<close>: the key of the prepared data, where the
  value comes from (a key of the reading, or a \<^verbatim>\<open>calc\<close> expression), the format and the
  text written when there is no value. The formats are \<^verbatim>\<open>'%0Nd'\<close>, \<^verbatim>\<open>'%s'\<close> and
  the time format \<^verbatim>\<open>'%d%H%M'\<close>. The expressions (\<^verbatim>\<open>max_dec_length\<close>, \<^verbatim>\<open>wind_mph\<close>,
  \<^verbatim>\<open>latitude_loran\<close>, ...) belong to modules that are not among the files; their
  results are an input of \<open>resolve\<close> below.
\<close>

datatype selector = DataKey string | Calc

datatype output_format = ZeroPad nat | PlainString | DayHourMinute

record field_spec =
  field_name :: string
  source_selector :: selector
  output_format :: output_format
  fallback :: string

definition field :: "string \<Rightarrow> selector \<Rightarrow> output_format \<Rightarrow> string \<Rightarrow> field_spec" where
  "field name sel fmt fb =
     \<lparr>field_name = name, source_selector = sel, output_format = fmt, fallback = fb\<rparr>"

text \<open>
  The template as \<^verbatim>\<open>__init__\<close> leaves it: the base template, two more fields for a
  3080 station, and \<^verbatim>\<open>altitude\<close> when the configuration has a non-empty altitude.
\<close>

definition cwop_template :: "string option \<Rightarrow> string option \<Rightarrow> field_spec list" where
  "cwop_template ws_type altitude_param =
     [field ''idx'' (DataKey ''idx'') DayHourMinute '''',
      field ''lat_loran'' Calc PlainString ''c'',
      field ''lon_loran'' Calc PlainString ''c'',
      field ''wind_dir'' (DataKey ''wind_dir'') (ZeroPad 3) ''...'',
      field ''wind_ave'' (DataKey ''wind_ave'') (ZeroPad 3) ''...'',
      field ''wind_gust'' (DataKey ''wind_gust'') (ZeroPad 3) ''...'',
      field ''temp_out'' Calc (ZeroPad 3) ''...'',
      field ''hum_out'' (DataKey ''hum_out'') (ZeroPad 2) ''..'',
      field ''rel_pressure'' (DataKey ''rel_pressure'') (ZeroPad 5) ''.....'',
      field ''rain_hour'' Calc (ZeroPad 3) ''...'',
      field ''rain_24hr'' Calc (ZeroPad 3) ''...'',
      field ''rain_day'' Calc (ZeroPad 3) ''...'']
     @ (if ws_type = Some ''3080''
        then [field ''illuminance_t'' Calc PlainString ''l'',
              field ''illuminance'' Calc (ZeroPad 3) ''...'']
        else [])
     @ (if altitude_param \<noteq> None \<and> altitude_param \<noteq> Some []
        then [field ''altitude'' (DataKey ''altitude'') (ZeroPad 6) '''']
        else [])"

text \<open>
  The value of a field after its expression: an integer for \<^verbatim>\<open>%d\<close>, a string for
  \<^verbatim>\<open>%s\<close>, the day of the month, hour and minute for the time format.
\<close>

datatype field_value = IntValue int | StrValue string | TimeValue nat nat nat

definition render :: "output_format \<Rightarrow> field_value \<Rightarrow> string option" where
  "render fmt v =
     (case (fmt, v) of
        (ZeroPad w, IntValue n) \<Rightarrow> Some (py_percent_0d w n)
      | (PlainString, StrValue s) \<Rightarrow> Some s
      | (DayHourMinute, TimeValue d h m) \<Rightarrow>
          Some (py_percent_0d 2 (int d) @ py_percent_0d 2 (int h) @ py_percent_0d 2 (int m))
      | _ \<Rightarrow> None)"

text \<open>
  Modelled from the spec: the resolution of one field by the template engine
  (\<^verbatim>\<open>pywws.Template\<close>), which is missing from the files. When the evaluated value is
  missing or not valid for the format, the fallback sentinel is emitted, otherwise the
  value is rendered with the declared format.
\<close>

definition resolve_field :: "field_spec \<Rightarrow> field_value option \<Rightarrow> string" where
  "resolve_field f v =
     (case v of
        None \<Rightarrow> fallback f
      | Some x \<Rightarrow> (case render (output_format f) x of None \<Rightarrow> fallback f | Some s \<Rightarrow> s))"

text \<open>
  Modelled from the spec: template resolution (\<^verbatim>\<open>prepare_data\<close> of the service base
  class with \<^verbatim>\<open>pywws.Template\<close>), which is missing from the files. It resolves every
  applicable field into a mapping from field names to strings; a bad field degrades to
  its sentinel and resolution continues. \<open>values\<close> gives the evaluated value of each
  field, \<open>None\<close> when it is missing.
\<close>

definition resolve :: "field_spec list \<Rightarrow> (string \<Rightarrow> field_value option) \<Rightarrow> (string \<times> string) list" where
  "resolve template values = map (\<lambda>f. (field_name f, resolve_field f (values (field_name f)))) template"

section \<open>Throttling of uploads\<close>

text \<open>
  Modelled from the spec: the throttle of an upload service, which is missing from the
  files (it belongs to the base classes of \<^verbatim>\<open>pywws.service\<close>). No two attempts to a
  destination may begin less than the destination's interval apart, measured from the
  start of the previous attempt regardless of its outcome. An event is the time of a
  reading event and whether an upload attempted then would succeed; \<open>previous\<close> is the
  start of the previous attempt. The result lists the events at which an attempt
  begins.
\<close>

fun upload_attempts ::
  "timedelta \<Rightarrow> datetime option \<Rightarrow> (datetime \<times> bool) list \<Rightarrow> (datetime \<times> bool) list" where
  "upload_attempts interval previous [] = []"
| "upload_attempts interval previous ((t, ok) # events) =
     (if previous = None \<or> interval \<le> t - the previous
      then (t, ok) # upload_attempts interval (Some t) events
      else upload_attempts interval previous events)"

section \<open>Sample data\<close>

text \<open>
  Readings of 1 and 2 June 2013 (times in UTC), used to run the definitions on
  concrete input.
\<close>

definition sample :: "datetime \<Rightarrow> real \<Rightarrow> real \<Rightarrow> reading" where
  "sample t temp r =
     \<lparr>idx = t, temp_out = Some temp, hum_out = Some 50, rain = Some r,
      wind_ave = Some 0, wind_gust = Some 2, wind_dir = Some 0, abs_pressure = Some 1010\<rparr>"

text \<open>1 June 11:58 (30 degrees), 12:10 (20 degrees), and 2 June 12:03 (10 degrees).\<close>

definition r_1158 :: reading where
  "r_1158 = sample 63505684680000000 30 12"

definition r_1210 :: reading where
  "r_1210 = sample 63505685400000000 20 12"

definition r_next_1203 :: reading where
  "r_next_1203 = sample 63505771380000000 10 12"

definition two_days :: store where
  "two_days = [r_1158, r_1210, r_next_1203]"

text \<open>
  1 June 12:00, 12:01 and 12:03; the rain counter is reset between the second and
  the third reading.
\<close>

definition r_1200 :: reading where
  "r_1200 = sample 63505684800000000 10 12"

definition r_1201 :: reading where
  "r_1201 = sample 63505684860000000 50 12"

definition r_1203 :: reading where
  "r_1203 = sample 63505684980000000 10 3"

definition noon :: store where
  "noon = [r_1200, r_1201, r_1203]"

text \<open>The row dictionaries of the first and the third of these readings, for a run on 3 June.\<close>

definition row_1200 :: "(string \<times> cell) list" where
  "row_1200 = [(''Report Date / Time'', Strftime ''%d/%m/%Y %H:%M'' 63505684800000000),
     (''Max. Temp. (last 24hr)'', Formatted ''%.2f'' 10),
     (''Air Temperature'', Formatted ''%.2f'' 10),
     (''Dew Point'', PyNone),
     (''Rainfall Rate'', PyNone),
     (''Rainfall Accumulation'', PyNone),
     (''Wind Speed'', PyNone),
     (''Wind Gust'', Formatted ''%.2f'' 2),
     (''Wind Direction'', PyNone),
     (''Relative Humidity'', Number 50),
     (''Pressure (At Station)'', Formatted ''%.2f'' 1010)]"

definition row_1203 :: "(string \<times> cell) list" where
  "row_1203 = [(''Report Date / Time'', Strftime ''%d/%m/%Y %H:%M'' 63505684980000000),
     (''Max. Temp. (last 24hr)'', Formatted ''%.2f'' 50),
     (''Air Temperature'', Formatted ''%.2f'' 10),
     (''Dew Point'', PyNone),
     (''Rainfall Rate'', PyNone),
     (''Rainfall Accumulation'', PyNone),
     (''Wind Speed'', PyNone),
     (''Wind Gust'', Formatted ''%.2f'' 2),
     (''Wind Direction'', PyNone),
     (''Relative Humidity'', Number 50),
     (''Pressure (At Station)'', Formatted ''%.2f'' 1010)]"

text \<open>A reading one minute after \<^verbatim>\<open>datetime.min\<close>.\<close>

definition r_year1 :: reading where
  "r_year1 = sample 60000000 10 12"

text \<open>
  The generator run on 3 June 2013 and on 1 June 2013, in a time zone whose midnight
  is midnight UTC; wind directions are sixteenths of the circle.
\<close>

definition env_june3 :: environment where
  "env_june3 =
     \<lparr>dew_point = (\<lambda>t h. None), winddir_degrees = map_option (\<lambda>p. p * 22.5),
      now_midnight = (\<lambda>r. 63505814400000000)\<rparr>"

definition env_june1 :: environment where
  "env_june1 =
     \<lparr>dew_point = (\<lambda>t h. None), winddir_degrees = map_option (\<lambda>p. p * 22.5),
      now_midnight = (\<lambda>r. 63505641600000000)\<rparr>"

text \<open>Prepared data of the CWOP service, with and without an altitude.\<close>

definition prepared :: "(string \<times> string) list" where
  "prepared =
     [(''designator'', ''EW9999''), (''passcode'', ''-1''), (''version'', ''18.4.2''),
      (''idx'', ''011203''), (''lat_loran'', ''5130.06N''), (''lon_loran'', ''00008.52E''),
      (''wind_dir'', ''090''), (''wind_ave'', ''005''), (''wind_gust'', ''010''),
      (''temp_out'', ''050''), (''rain_hour'', ''000''), (''rain_24hr'', ''012''),
      (''rain_day'', ''003''), (''hum_out'', ''50''), (''rel_pressure'', ''10132''),
      (''illuminance_t'', ''L''), (''illuminance'', ''123'')]"


definition idle :: session where
  "idle = \<lparr>sent = [], faults = []\<rparr>"

text \<open>A session whose second socket call (reading the acknowledgement) times out.\<close>

definition timed_out :: session where
  "timed_out = \<lparr>sent = [], faults = [None, Some ''timeout()'']\<rparr>"

text \<open>HTTP sessions that answer every post with a given status, or refuse the connection.\<close>

definition post_status :: "int \<Rightarrow> string \<Rightarrow> string \<Rightarrow> unit list \<Rightarrow> http_result" where
  "post_status code reply u payload = Returns \<lparr>status_code = code, rsp_text = reply, json = None\<rparr>"

definition post_refused :: "string \<Rightarrow> unit list \<Rightarrow> http_result" where
  "post_refused u payload = Raises ''Connection refused''"





section \<open>Properties of the store\<close>

lemma nearest_None: "nearest s t = None \<longleftrightarrow> s = []"
  by (induction s) (auto split: option.splits)

lemma nearest_in_store: "nearest s t = Some k \<Longrightarrow> k \<in> idx ` set s"
  by (induction s arbitrary: k) (auto split: option.splits if_splits)

lemma nearest_closest: "nearest s t = Some k \<Longrightarrow> r \<in> set s \<Longrightarrow> \<bar>k - t\<bar> \<le> \<bar>idx r - t\<bar>"
proof (induction s arbitrary: k)
  case Nil
  then show ?case by simp
next
  case (Cons a s)
  show ?case
  proof (cases "nearest s t")
    case None
    then have "s = []" by (simp add: nearest_None)
    with Cons.prems None show ?thesis by simp
  next
    case (Some j)
    show ?thesis
    proof (cases "r = a")
      case True
      with Cons.prems(1) Some show ?thesis by (auto split: if_splits)
    next
      case False
      with Cons.prems(2) have "r \<in> set s" by simp
      then have "\<bar>j - t\<bar> \<le> \<bar>idx r - t\<bar>" by (rule Cons.IH [OF Some])
      with Cons.prems(1) Some show ?thesis by (auto split: if_splits)
    qed
  qed
qed

lemma getitem_nearest:
  assumes "nearest s t = Some k"
  shows "\<exists>r. getitem s (Some k) = Inr r \<and> idx r = k \<and> r \<in> set s"
proof -
  from assms obtain x where x: "x \<in> set s" "idx x = k"
    using nearest_in_store by fastforce
  then have "find (\<lambda>r. idx r = k) s \<noteq> None"
    by (auto simp: find_None_iff)
  then obtain r where r: "find (\<lambda>r. idx r = k) s = Some r" by auto
  then have "idx r = k \<and> r \<in> set s"
    by (auto simp: find_Some_iff)
  with r show ?thesis by (simp add: getitem_def)
qed

lemma fold_max_temp:
  "fold (\<lambda>r m. max m (f r)) xs (a :: 'a :: linorder) = Max (insert a (f ` set xs))"
proof (induction xs arbitrary: a)
  case Nil
  then show ?case by simp
next
  case (Cons x xs)
  have "Max (insert (max a (f x)) (f ` set xs)) = Max (insert a (insert (f x) (f ` set xs)))"
    by (cases "xs = []") (simp_all add: max.assoc)
  with Cons show ?case by simp
qed

lemma window_split:
  assumes "report \<in> set s" "distinct (map idx s)" "k \<le> idx report"
  shows "set (window s k (idx report)) = insert report (set (getslice s k (idx report)))"
proof -
  have inj: "inj_on idx (set s)"
    using assms(2) by (simp add: distinct_map)
  have "\<And>r. r \<in> set s \<Longrightarrow> idx r = idx report \<Longrightarrow> r = report"
    using inj assms(1) by (auto dest: inj_onD)
  then have "\<And>r. r \<in> set s \<Longrightarrow> r \<noteq> report \<Longrightarrow> idx r \<le> idx report \<Longrightarrow> idx r < idx report"
    by force
  with assms(1,3) show ?thesis
    by (auto simp: window_def getslice_def)
qed

lemma nearest_not_after:
  assumes "nearest s t = Some k" "r \<in> set s" "t \<le> idx r"
  shows "k \<le> idx r"
  using nearest_closest [OF assms(1,2)] assms(3) by linarith

section \<open>Evaluation on the sample data\<close>

lemmas time_consts =
  datetime_min_def datetime_max_def year_1900_def HOUR_def DAY_def REPORTS_MAXIMUM_FREQUENCY_def

lemmas two_days_defs = two_days_def r_1158_def r_1210_def r_next_1203_def sample_def

lemmas noon_defs = noon_def r_1200_def r_1201_def r_1203_def sample_def

lemma two_days_max_temp24: "max_temp24 two_days r_next_1203 = Inr (Some 30)"
  by (simp add: max_temp24_def dt_sub_def time_consts getitem_def getslice_def two_days_defs)

lemma two_days_window_max:
  "window_max two_days (idx r_next_1203 - DAY) (idx r_next_1203) = Some 20"
  by (simp add: window_max_def window_def DAY_def two_days_defs)

section \<open>The 24-hour maximum\<close>

text \<open>
  Claim C1, as amended. Let \<open>report\<close> be a stored reading of a store with distinct
  timestamps, at least a day after \<^verbatim>\<open>datetime.min\<close>. Then \<open>max_temp24\<close> returns a value:
  the maximum of the temperature over the stored readings from the reading nearest to
  24 hours before the report up to the report itself. This value is greater than or
  equal to the temperature of every stored reading in the 24 hours up to the report,
  and it is the true maximum of these 24 hours whenever the nearest reading is not
  older than 24 hours.
\<close>

theorem max_temp24_window:
  assumes "report \<in> set s" and "distinct (map idx s)"
    and "datetime_min + DAY \<le> idx report" and "idx report \<le> datetime_max"
  shows "\<exists>k. nearest s (idx report - DAY) = Some k \<and> k \<le> idx report
    \<and> max_temp24 s report = Inr (window_max s k (idx report))
    \<and> (\<forall>r \<in> set s. idx report - DAY \<le> idx r \<and> idx r \<le> idx report
          \<longrightarrow> temp_out r \<le> window_max s k (idx report))
    \<and> (idx report - DAY \<le> k
          \<longrightarrow> window_max s k (idx report) = window_max s (idx report - DAY) (idx report))"
proof -
  let ?at = "idx report" and ?t = "idx report - DAY"
  have day: "0 < DAY" by (simp add: DAY_def)
  have sub: "dt_sub ?at DAY = Inr ?t"
    using assms(3,4) day by (simp add: dt_sub_def)
  from assms(1) have "s \<noteq> []" by auto
  then obtain k where k: "nearest s ?t = Some k"
    using nearest_None [of s ?t] by auto
  obtain start where start: "getitem s (Some k) = Inr start" "idx start = k"
    using getitem_nearest [OF k] by auto
  have le: "k \<le> ?at"
    using nearest_not_after [OF k assms(1)] day by simp
  have cover: "\<And>r. r \<in> set s \<Longrightarrow> ?t \<le> idx r \<Longrightarrow> k \<le> idx r"
    using nearest_not_after [OF k] by simp
  have val: "max_temp24 s report = Inr (window_max s k ?at)"
    using sub k start window_split [OF assms(1,2) le]
    by (simp add: max_temp24_def fold_max_temp window_max_def)
  have ge: "\<forall>r \<in> set s. ?t \<le> idx r \<and> idx r \<le> ?at \<longrightarrow> temp_out r \<le> window_max s k ?at"
  proof (intro ballI impI)
    fix r assume r: "r \<in> set s" "?t \<le> idx r \<and> idx r \<le> ?at"
    then have "r \<in> set (window s k ?at)"
      using cover by (simp add: window_def)
    then show "temp_out r \<le> window_max s k ?at"
      by (simp add: window_max_def)
  qed
  have same: "?t \<le> k \<longrightarrow> window_max s k ?at = window_max s ?t ?at"
  proof
    assume "?t \<le> k"
    then have "window s k ?at = window s ?t ?at"
      using cover by (auto simp: window_def intro!: filter_cong)
    then show "window_max s k ?at = window_max s ?t ?at"
      by (simp add: window_max_def)
  qed
  from k le val ge same show ?thesis by blast
qed

text \<open>
  The theorem on the sample of two days: the report of 2 June 12:03 is a stored reading
  and the scan starts at the reading of 1 June 11:58.
\<close>

theorem max_temp24_window_witness:
  "r_next_1203 \<in> set two_days \<and> distinct (map idx two_days)
   \<and> datetime_min + DAY \<le> idx r_next_1203 \<and> idx r_next_1203 \<le> datetime_max
   \<and> nearest two_days (idx r_next_1203 - DAY) = Some (idx r_1158)
   \<and> max_temp24 two_days r_next_1203 = Inr (window_max two_days (idx r_1158) (idx r_next_1203))
   \<and> temp_out r_1210 \<le> window_max two_days (idx r_1158) (idx r_next_1203)"
proof -
  have h1: "r_next_1203 \<in> set two_days" by (simp add: two_days_def)
  have h2: "distinct (map idx two_days)" by (simp add: two_days_defs)
  have h3: "datetime_min + DAY \<le> idx r_next_1203" by (simp add: time_consts two_days_defs)
  have h4: "idx r_next_1203 \<le> datetime_max" by (simp add: time_consts two_days_defs)
  have n: "nearest two_days (idx r_next_1203 - DAY) = Some (idx r_1158)"
    by (simp add: DAY_def two_days_defs)
  have m: "r_1210 \<in> set two_days \<and> idx r_next_1203 - DAY \<le> idx r_1210 \<and> idx r_1210 \<le> idx r_next_1203"
    by (simp add: DAY_def two_days_defs)
  from max_temp24_window [OF h1 h2 h3 h4] n m h1 h2 h3 h4 show ?thesis by auto
qed

text \<open>
  Claim C1 as stated fails on the same sample: the reading nearest to 24 hours before
  the report (1 June 11:58, 30 degrees) is five minutes older than 24 hours, and the
  scan includes it. The result is 30 degrees; the maximum over the 24 hours up to the
  report is 20 degrees.
\<close>

theorem max_temp24_not_window_max:
  "max_temp24 two_days r_next_1203 = Inr (Some 30)
   \<and> window_max two_days (idx r_next_1203 - DAY) (idx r_next_1203) = Some 20
   \<and> max_temp24 two_days r_next_1203
       \<noteq> Inr (window_max two_days (idx r_next_1203 - DAY) (idx r_next_1203))"
  by (simp add: two_days_max_temp24 two_days_window_max)

declare rain_day_back.simps [simp del] rain_day_forward.simps [simp del] dec_digits.simps [simp del]

section \<open>Properties of the rainfall computations\<close>

lemma rain_since_nonneg: "rain_since report reference = Inr v \<Longrightarrow> 0 \<le> v"
  by (auto simp: rain_since_def split: sum.splits)

lemma rain_since_reset:
  "rain_since report (Some y) = Inr v \<Longrightarrow> rain report = Some x \<Longrightarrow> x < y \<Longrightarrow> v = 0"
  by (auto simp: rain_since_def py_sub_def split: sum.splits)

lemma rain_day_back_var:
  "rain_day_back i m rm = Inr (m', rm') \<Longrightarrow> rm' = rm \<or> rm' = Bound None"
proof (induction i m rm rule: rain_day_back.induct)
  case (1 i midnight rain_midnight)
  then show ?case
    by (subst (asm) (2) rain_day_back.simps) (auto split: if_splits)
qed

lemma rain_day_forward_var:
  "rain_day_forward i m rm = Inr (m', rm') \<Longrightarrow> rm' = rm \<or> rm' = Bound None"
proof (induction i m rm rule: rain_day_forward.induct)
  case (1 i midnight rain_midnight)
  then show ?case
    by (subst (asm) (2) rain_day_forward.simps) (auto split: if_splits)
qed

lemma rain_day_returns:
  assumes "fst (rain_day now s report) = Inr v"
  shows "\<exists>midnight reference. snd (rain_day now s report) = [midnight]
    \<and> getitem s (nearest s midnight) = Inr reference
    \<and> rain_since report (rain reference) = Inr v"
proof -
  from assms obtain m1 rm1 where b: "rain_day_back (idx report) now Unbound = Inr (m1, rm1)"
    by (auto simp: rain_day_def split: sum.splits)
  with assms obtain m2 rm2 where f: "rain_day_forward (idx report) m1 rm1 = Inr (m2, rm2)"
    by (auto simp: rain_day_def split: sum.splits)
  from rain_day_back_var [OF b] rain_day_forward_var [OF f]
  have "rm2 = Unbound \<or> rm2 = Bound None" by auto
  with assms b f show ?thesis
    by (auto simp: rain_day_def split: sum.splits)
qed

lemma rain_day_back_total:
  "i < m \<Longrightarrow> datetime_min + DAY \<le> i \<Longrightarrow>
     \<exists>m'. rain_day_back i m rm = Inr (m', Bound None) \<and> m' \<le> i \<and> i < m' + DAY"
proof (induction i m rm rule: rain_day_back.induct)
  case (1 i midnight rain_midnight)
  from "1.prems" have no: "\<not> midnight - DAY < datetime_min" by simp
  show ?case
  proof (cases "i < midnight - DAY")
    case True
    from "1.IH" [OF "1.prems"(1) no True "1.prems"(2)] "1.prems"(1) no
    show ?thesis by (subst rain_day_back.simps) simp
  next
    case False
    with "1.prems"(1) no show ?thesis
      by (subst rain_day_back.simps, subst rain_day_back.simps) simp
  qed
qed

lemma rain_day_forward_total:
  "m + DAY \<le> i \<Longrightarrow> i + DAY \<le> datetime_max \<Longrightarrow>
     \<exists>m'. rain_day_forward i m rm = Inr (m', Bound None) \<and> m' \<le> i \<and> i < m' + DAY"
proof (induction i m rm rule: rain_day_forward.induct)
  case (1 i midnight rain_midnight)
  have day: "0 < DAY" by (simp add: DAY_def)
  from "1.prems" day have no: "\<not> datetime_max < midnight + DAY" by simp
  show ?case
  proof (cases "midnight + DAY + DAY \<le> i")
    case True
    from "1.IH" [OF no "1.prems"(1) True "1.prems"(2)] "1.prems"(1) no
    show ?thesis by (subst rain_day_forward.simps) simp
  next
    case False
    with "1.prems" no day have "\<not> datetime_max < midnight + DAY + DAY" by simp
    with False "1.prems"(1) no show ?thesis
      by (subst rain_day_forward.simps, subst rain_day_forward.simps) simp
  qed
qed

lemma rain_day_forward_stay:
  "m \<le> i \<Longrightarrow> i < m + DAY \<Longrightarrow> i + DAY \<le> datetime_max \<Longrightarrow>
     rain_day_forward i m rm = Inr (m, rm)"
  by (subst rain_day_forward.simps) simp

lemma rain_day_total:
  assumes "s \<noteq> []" and "idx report < now \<or> now + DAY \<le> idx report"
    and "datetime_min + DAY \<le> idx report" and "idx report + DAY \<le> datetime_max"
    and "\<forall>r \<in> set s. rain r \<noteq> None" and "rain report \<noteq> None"
  shows "\<exists>v. fst (rain_day now s report) = Inr v"
proof -
  have "\<exists>m. rain_day_back (idx report) now Unbound = Inr (m, Bound None)
      \<and> (\<exists>m'. rain_day_forward (idx report) m (Bound None) = Inr (m', Bound None))
    \<or> rain_day_back (idx report) now Unbound = Inr (now, Unbound)
      \<and> (\<exists>m'. rain_day_forward (idx report) now Unbound = Inr (m', Bound None))"
  proof (cases "idx report < now")
    case True
    from rain_day_back_total [OF True assms(3), of Unbound] obtain m where
      m: "rain_day_back (idx report) now Unbound = Inr (m, Bound None)"
        "m \<le> idx report" "idx report < m + DAY" by blast
    from rain_day_forward_stay [OF m(2,3) assms(4)] m(1) show ?thesis by blast
  next
    case False
    with assms(2) have f: "now + DAY \<le> idx report" by simp
    from False have "rain_day_back (idx report) now Unbound = Inr (now, Unbound)"
      by (subst rain_day_back.simps) simp
    with rain_day_forward_total [OF f assms(4), of Unbound] show ?thesis by blast
  qed
  then obtain m where m: "rain_day (now) s report
      = (case getitem s (nearest s m) of
           Inl e \<Rightarrow> (Inl e, [m])
         | Inr reference \<Rightarrow> (rain_since report (rain reference), [m]))"
    by (auto simp: rain_day_def)
  from assms(1) obtain k where k: "nearest s m = Some k"
    using nearest_None [of s m] by auto
  from getitem_nearest [OF k] obtain r where r: "getitem s (Some k) = Inr r" "r \<in> set s"
    by blast
  with assms(5,6) obtain x y where "rain report = Some x" "rain r = Some y" by auto
  with m k r show ?thesis
    by (simp add: rain_since_def py_sub_def)
qed

lemma rain_rate_total:
  assumes "s \<noteq> []" and "datetime_min + HOUR \<le> idx report" and "idx report \<le> datetime_max"
    and "\<forall>r \<in> set s. rain r \<noteq> None" and "rain report \<noteq> None"
  shows "\<exists>w. rain_rate s report = Inr w"
proof -
  have hour: "0 < HOUR" by (simp add: HOUR_def)
  with assms(2,3) have t: "dt_sub (idx report) HOUR = Inr (idx report - HOUR)"
    by (simp add: dt_sub_def)
  from assms(1) obtain k where k: "nearest s (idx report - HOUR) = Some k"
    using nearest_None [of s "idx report - HOUR"] by auto
  from getitem_nearest [OF k] obtain r where r: "getitem s (Some k) = Inr r" "r \<in> set s"
    by blast
  with assms(4,5) obtain x y where "rain report = Some x" "rain r = Some y" by auto
  with t k r show ?thesis
    by (simp add: rain_rate_def rain_since_def py_sub_def)
qed

section \<open>Properties of the written rows\<close>

lemma column_writerow:
  "name \<in> set FIELDS \<Longrightarrow> column (writerow d) name = Some (csv_text_of (map_of d name))"
  by (simp add: column_def writerow_def map_of_zip_map)

lemma csv_row_fields:
  assumes "csv_row env s report = Inr d"
  shows "map_of d ''Air Temperature'' = Some (safe_format ''%.2f'' (temp_out report))"
    and "map_of d ''Wind Speed'' = Some (safe_format ''%.2f'' (wind_ave report))"
    and "map_of d ''Wind Gust'' = Some (safe_format ''%.2f'' (wind_gust report))"
    and "map_of d ''Wind Direction'' = Some (safe_format ''%d'' (winddir_degrees env (wind_dir report)))"
    and "\<exists>rate. rain_rate s report = Inr rate
           \<and> map_of d ''Rainfall Rate'' = Some (safe_format ''%.2f'' (Some rate))"
  using assms by (auto simp: csv_row_def split: if_splits sum.splits option.splits)

lemma fields_mem:
  "''Air Temperature'' \<in> set FIELDS" "''Wind Speed'' \<in> set FIELDS" "''Wind Gust'' \<in> set FIELDS"
  "''Wind Direction'' \<in> set FIELDS" "''Rainfall Rate'' \<in> set FIELDS"
  "''Max. Temp. (last 24hr)'' \<in> set FIELDS" "''Rainfall Accumulation'' \<in> set FIELDS"
  by (simp_all add: FIELDS_def)

lemma safe_format_blank: "\<not> truthy v \<Longrightarrow> csv_text_of (Some (safe_format fmt v)) = Empty"
  by (simp add: safe_format_def csv_text_of_def)

lemma bulk_loop_gaps:
  "bulk_loop env s prev reports = (rows, err) \<Longrightarrow>
     sorted_wrt (\<lambda>a b. REPORTS_MAXIMUM_FREQUENCY \<le> b - a) (map fst rows)
     \<and> (\<forall>t \<in> set (map fst rows). REPORTS_MAXIMUM_FREQUENCY \<le> t - prev)"
proof (induction reports arbitrary: prev rows err)
  case Nil
  then show ?case by simp
next
  case (Cons report reports)
  have pos: "0 < REPORTS_MAXIMUM_FREQUENCY" by (simp add: REPORTS_MAXIMUM_FREQUENCY_def)
  show ?case
  proof (cases "idx report - prev < REPORTS_MAXIMUM_FREQUENCY")
    case True
    with Cons.prems have "bulk_loop env s prev reports = (rows, err)" by simp
    then show ?thesis by (rule Cons.IH)
  next
    case False
    show ?thesis
    proof (cases "csv_row env s report")
      case (Inl e)
      with False Cons.prems show ?thesis by simp
    next
      case (Inr d)
      obtain rows' err' where rest: "bulk_loop env s (idx report) reports = (rows', err')"
        by (cases "bulk_loop env s (idx report) reports")
      with False Inr Cons.prems have rows: "rows = (idx report, writerow d) # rows'"
        by simp
      from Cons.IH [OF rest] have ih:
        "sorted_wrt (\<lambda>a b. REPORTS_MAXIMUM_FREQUENCY \<le> b - a) (map fst rows')"
        "\<forall>t \<in> set (map fst rows'). REPORTS_MAXIMUM_FREQUENCY \<le> t - idx report"
        by simp_all
      from ih(2) False pos
      have "\<forall>t \<in> set (map fst rows'). REPORTS_MAXIMUM_FREQUENCY \<le> t - prev"
        by fastforce
      with ih False rows show ?thesis by simp
    qed
  qed
qed

lemma bulk_loop_rows:
  "bulk_loop env s prev reports = (rows, err) \<Longrightarrow>
     \<forall>(t, row) \<in> set rows. \<exists>r \<in> set reports. idx r = t
        \<and> (\<exists>d. csv_row env s r = Inr d \<and> row = writerow d)"
proof (induction reports arbitrary: prev rows err)
  case Nil
  then show ?case by simp
next
  case (Cons report reports)
  show ?case
  proof (cases "idx report - prev < REPORTS_MAXIMUM_FREQUENCY")
    case True
    with Cons.prems have "bulk_loop env s prev reports = (rows, err)" by simp
    from Cons.IH [OF this] show ?thesis by fastforce
  next
    case False
    show ?thesis
    proof (cases "csv_row env s report")
      case (Inl e)
      with False Cons.prems show ?thesis by simp
    next
      case (Inr d)
      obtain rows' err' where rest: "bulk_loop env s (idx report) reports = (rows', err')"
        by (cases "bulk_loop env s (idx report) reports")
      with False Inr Cons.prems have rows: "rows = (idx report, writerow d) # rows'"
        by simp
      from Cons.IH [OF rest] rows Inr show ?thesis by fastforce
    qed
  qed
qed

lemma bulk_loop_first:
  assumes "REPORTS_MAXIMUM_FREQUENCY \<le> idx report - prev" and "csv_row env s report = Inr d"
  shows "\<exists>more. fst (bulk_loop env s prev (report # reports)) = (idx report, writerow d) # more"
  using assms by (simp split: prod.splits)

section \<open>Evaluation of the generator on the sample data\<close>

lemma env_june3_simps:
  "now_midnight env_june3 r = 63505814400000000"
  "dew_point env_june3 t h = None"
  "winddir_degrees env_june3 p = map_option (\<lambda>p. p * 22.5) p"
  by (simp_all add: env_june3_def)

lemma env_june1_simps:
  "now_midnight env_june1 r = 63505641600000000"
  "dew_point env_june1 t h = None"
  "winddir_degrees env_june1 p = map_option (\<lambda>p. p * 22.5) p"
  by (simp_all add: env_june1_def)

lemma noon_fields:
  "idx r_1200 = 63505684800000000" "idx r_1201 = 63505684860000000" "idx r_1203 = 63505684980000000"
  "temp_out r_1200 = Some 10" "temp_out r_1201 = Some 50" "temp_out r_1203 = Some 10"
  "rain r_1200 = Some 12" "rain r_1201 = Some 12" "rain r_1203 = Some 3"
  "wind_ave r_1200 = Some 0" "wind_ave r_1203 = Some 0"
  "wind_gust r_1200 = Some 2" "wind_gust r_1203 = Some 2"
  "wind_dir r_1200 = Some 0" "wind_dir r_1203 = Some 0"
  "hum_out r_1200 = Some 50" "hum_out r_1203 = Some 50"
  "abs_pressure r_1200 = Some 1010" "abs_pressure r_1203 = Some 1010"
  by (simp_all add: noon_defs)

lemma noon_rain_day:
  "rain_day 63505814400000000 noon r_1200 = (Inr 0, [63505641600000000])"
  "rain_day 63505814400000000 noon r_1203 = (Inr 0, [63505641600000000])"
  by (simp_all add: rain_day_def rain_day_back.simps rain_day_forward.simps time_consts
      getitem_def rain_since_def py_sub_def noon_defs)

lemma noon_rain_day_today:
  "rain_day 63505641600000000 noon r_1200 = (Inl UnboundLocalError, [])"
  by (simp add: rain_day_def rain_day_back.simps rain_day_forward.simps time_consts noon_defs)

lemma noon_max_temp24:
  "max_temp24 noon r_1200 = Inr (Some 10)"
  "max_temp24 noon r_1203 = Inr (Some 50)"
  by (simp_all add: max_temp24_def dt_sub_def time_consts getitem_def getslice_def noon_defs)

lemma noon_rain_rate:
  "rain_rate noon r_1200 = Inr 0"
  "rain_rate noon r_1203 = Inr 0"
  by (simp_all add: rain_rate_def dt_sub_def time_consts getitem_def rain_since_def py_sub_def noon_defs)

lemma noon_nearest:
  "getitem noon (nearest noon 63505641600000000) = Inr r_1200"
  "getitem noon (nearest noon (idx r_1203 - HOUR)) = Inr r_1200"
  by (simp_all add: getitem_def time_consts noon_defs)

lemma noon_csv_row:
  "csv_row env_june3 noon r_1200 = Inr row_1200"
  "csv_row env_june3 noon r_1203 = Inr row_1203"
  by (simp_all add: csv_row_def env_june3_simps noon_max_temp24 noon_rain_rate noon_rain_day
      noon_fields year_1900_def safe_format_def truthy_def row_1200_def row_1203_def)

lemma noon_csv_row_today:
  "csv_row env_june1 noon r_1200 = Inl UnboundLocalError"
  by (simp add: csv_row_def env_june1_simps noon_max_temp24 noon_rain_rate noon_rain_day_today
      noon_fields year_1900_def)

lemma noon_slice: "getslice noon datetime_min datetime_max = [r_1200, r_1201, r_1203]"
  by (simp add: getslice_def time_consts noon_defs)

lemma noon_generate_bulk:
  "GenerateBulk env_june3 noon = ([(idx r_1200, writerow row_1200), (idx r_1203, writerow row_1203)], None)"
  unfolding GenerateBulk_def noon_slice
  by (simp add: noon_csv_row noon_fields time_consts)

lemma noon_generate_bulk_today:
  "GenerateBulk env_june1 noon = ([], Some UnboundLocalError)"
  unfolding GenerateBulk_def noon_slice
  by (simp add: noon_csv_row_today noon_fields time_consts)

lemma year1_generate_bulk:
  "GenerateBulk env_june3 [r_year1] = ([], None)"
  by (simp add: GenerateBulk_def getslice_def r_year1_def sample_def time_consts)

lemma row_1203_max: "column (writerow row_1203) ''Max. Temp. (last 24hr)'' = Some (Text (Formatted ''%.2f'' 50))"
  by (simp add: column_writerow fields_mem) (simp add: row_1203_def csv_text_of_def)

section \<open>Rainfall is never negative\<close>

text \<open>
  Claim C3. Whenever \<open>rain_day\<close> returns an accumulation it is not negative, and it is
  exactly 0 when the rain counter of the report is below that of the reference reading
  the call looked up (a counter reset). The same holds for the hourly rate of
  \<open>GenerateBulk\<close>, whose reference is the reading nearest to one hour before the
  report. Every row of the generator holds the formatted values of such a rate and
  such an accumulation. Both computations do return a value for every reading of a
  non-empty store that is not of the current local day, when no rain counter is
  missing and the reading is a day or more away from both ends of the datetime range.
\<close>

theorem rain_never_negative:
  "(fst (rain_day now s report) = Inr v \<longrightarrow> 0 \<le> v)
   \<and> (fst (rain_day now s report) = Inr v \<and> snd (rain_day now s report) = [midnight]
        \<and> getitem s (nearest s midnight) = Inr reference
        \<and> rain report = Some x \<and> rain reference = Some y \<and> x < y \<longrightarrow> v = 0)
   \<and> (rain_rate s report = Inr w \<longrightarrow> 0 \<le> w)
   \<and> (rain_rate s report = Inr w
        \<and> getitem s (nearest s (idx report - HOUR)) = Inr reference'
        \<and> rain report = Some x \<and> rain reference' = Some y' \<and> x < y' \<longrightarrow> w = 0)
   \<and> (csv_row env s report = Inr d \<longrightarrow>
        (\<exists>rate accumulation. 0 \<le> rate \<and> 0 \<le> accumulation
           \<and> rain_rate s report = Inr rate
           \<and> fst (rain_day (now_midnight env report) s report) = Inr accumulation
           \<and> map_of d ''Rainfall Rate'' = Some (safe_format ''%.2f'' (Some rate))
           \<and> map_of d ''Rainfall Accumulation'' = Some (safe_format ''%.2f'' (Some accumulation))))
   \<and> (s \<noteq> [] \<and> (idx report < now \<or> now + DAY \<le> idx report)
        \<and> datetime_min + DAY \<le> idx report \<and> idx report + DAY \<le> datetime_max
        \<and> (\<forall>r \<in> set s. rain r \<noteq> None) \<and> rain report \<noteq> None \<longrightarrow>
        (\<exists>v' w'. fst (rain_day now s report) = Inr v' \<and> rain_rate s report = Inr w'))"
proof (intro conjI impI)
  assume t: "s \<noteq> [] \<and> (idx report < now \<or> now + DAY \<le> idx report)
        \<and> datetime_min + DAY \<le> idx report \<and> idx report + DAY \<le> datetime_max
        \<and> (\<forall>r \<in> set s. rain r \<noteq> None) \<and> rain report \<noteq> None"
  then have "datetime_min + HOUR \<le> idx report" "idx report \<le> datetime_max"
    by (simp_all add: HOUR_def DAY_def)
  with t rain_day_total [of s report now] rain_rate_total [of s report]
  show "\<exists>v' w'. fst (rain_day now s report) = Inr v' \<and> rain_rate s report = Inr w'"
    by blast
next
  assume "fst (rain_day now s report) = Inr v"
  then show "0 \<le> v"
    using rain_day_returns rain_since_nonneg by blast
next
  assume a: "fst (rain_day now s report) = Inr v \<and> snd (rain_day now s report) = [midnight]
        \<and> getitem s (nearest s midnight) = Inr reference
        \<and> rain report = Some x \<and> rain reference = Some y \<and> x < y"
  then obtain m r where "snd (rain_day now s report) = [m]" "getitem s (nearest s m) = Inr r"
    "rain_since report (rain r) = Inr v"
    using rain_day_returns by blast
  with a have "rain_since report (Some y) = Inr v" by simp
  with a show "v = 0" using rain_since_reset by blast
next
  assume "rain_rate s report = Inr w"
  then show "0 \<le> w"
    by (auto simp: rain_rate_def split: sum.splits dest: rain_since_nonneg)
next
  assume a: "rain_rate s report = Inr w
        \<and> getitem s (nearest s (idx report - HOUR)) = Inr reference'
        \<and> rain report = Some x \<and> rain reference' = Some y' \<and> x < y'"
  then have "rain_since report (Some y') = Inr w"
    by (auto simp: rain_rate_def dt_sub_def split: sum.splits if_splits)
  with a show "w = 0" using rain_since_reset by blast
next
  assume "csv_row env s report = Inr d"
  then obtain rate acc where r: "rain_rate s report = Inr rate"
      "fst (rain_day (now_midnight env report) s report) = Inr acc"
      "map_of d ''Rainfall Rate'' = Some (safe_format ''%.2f'' (Some rate))"
      "map_of d ''Rainfall Accumulation'' = Some (safe_format ''%.2f'' (Some acc))"
    by (auto simp: csv_row_def split: if_splits sum.splits option.splits)
  moreover from r(1) have "0 \<le> rate"
    by (auto simp: rain_rate_def split: sum.splits dest: rain_since_nonneg)
  moreover from r(2) have "0 \<le> acc"
    using rain_day_returns rain_since_nonneg by blast
  ultimately show "\<exists>rate accumulation. 0 \<le> rate \<and> 0 \<le> accumulation
           \<and> rain_rate s report = Inr rate
           \<and> fst (rain_day (now_midnight env report) s report) = Inr accumulation
           \<and> map_of d ''Rainfall Rate'' = Some (safe_format ''%.2f'' (Some rate))
           \<and> map_of d ''Rainfall Accumulation'' = Some (safe_format ''%.2f'' (Some accumulation))"
    by blast
qed

text \<open>
  The theorem on the sample of 1 June, run on 3 June: the counter of the 12:03 reading
  (3) is below that of both references (12), and both results are 0.
\<close>

theorem rain_never_negative_witness:
  "fst (rain_day 63505814400000000 noon r_1203) = Inr 0
   \<and> snd (rain_day 63505814400000000 noon r_1203) = [63505641600000000]
   \<and> getitem noon (nearest noon 63505641600000000) = Inr r_1200
   \<and> rain r_1203 = Some 3 \<and> rain r_1200 = Some 12 \<and> (3 :: real) < 12
   \<and> rain_rate noon r_1203 = Inr 0
   \<and> getitem noon (nearest noon (idx r_1203 - HOUR)) = Inr r_1200
   \<and> csv_row env_june3 noon r_1203 = Inr row_1203
   \<and> map_of row_1203 ''Rainfall Rate'' = Some (safe_format ''%.2f'' (Some 0))
   \<and> map_of row_1203 ''Rainfall Accumulation'' = Some (safe_format ''%.2f'' (Some 0))
   \<and> noon \<noteq> [] \<and> idx r_1203 < 63505814400000000
   \<and> datetime_min + DAY \<le> idx r_1203 \<and> idx r_1203 + DAY \<le> datetime_max
   \<and> list_all (\<lambda>r. rain r \<noteq> None) noon"
proof -
  have t: "noon \<noteq> [] \<and> idx r_1203 < 63505814400000000
      \<and> datetime_min + DAY \<le> idx r_1203 \<and> idx r_1203 + DAY \<le> datetime_max
      \<and> list_all (\<lambda>r. rain r \<noteq> None) noon"
    by (simp add: noon_defs time_consts)
  have e: "fst (rain_day 63505814400000000 noon r_1203) = Inr 0
      \<and> snd (rain_day 63505814400000000 noon r_1203) = [63505641600000000]"
    by (simp add: noon_rain_day)
  have f: "rain r_1203 = Some 3 \<and> rain r_1200 = Some 12 \<and> (3 :: real) < 12"
    by (simp add: noon_fields)
  have m: "map_of row_1203 ''Rainfall Rate'' = Some (safe_format ''%.2f'' (Some 0))
      \<and> map_of row_1203 ''Rainfall Accumulation'' = Some (safe_format ''%.2f'' (Some 0))"
    by (simp add: row_1203_def safe_format_def truthy_def)
  from rain_never_negative [where now = 63505814400000000 and s = noon and report = r_1203
      and v = 0 and midnight = 63505641600000000 and reference = r_1200 and x = 3 and y = 12
      and w = 0 and reference' = r_1200 and y' = 12 and env = env_june3 and d = row_1203]
    e f m t noon_nearest noon_rain_rate(2) noon_csv_row(2)
  show ?thesis by blast
qed

section \<open>The midnight reference of \<open>rain_day\<close>\<close>

text \<open>
  Claim C2 does not hold of the code. \<^verbatim>\<open>midnight\<close> and \<^verbatim>\<open>rain_midnight\<close> are local
  variables of \<open>rain_day\<close>, so nothing is kept between calls: two successive calls for
  readings of the same local day (1 June 12:00 and 12:03, run on 3 June) look the
  midnight reference up twice. For a reading of the current local day neither loop
  runs, \<^verbatim>\<open>rain_midnight\<close> is never assigned, and the call ends with UnboundLocalError.
\<close>

theorem rain_day_looks_up_every_call:
  "rain_day_lookups 63505814400000000 noon [r_1200, r_1203]
     = [63505641600000000, 63505641600000000]
   \<and> rain_day 63505641600000000 noon r_1200 = (Inl UnboundLocalError, [])"
  by (simp add: noon_rain_day noon_rain_day_today)

section \<open>The minimum interval between written rows\<close>

text \<open>
  Claim C4, as amended. For every store and every run of \<open>GenerateBulk\<close>, up to the
  exception that ends it, if any: the timestamps of any two written rows are at least
  \<open>REPORTS_MAXIMUM_FREQUENCY\<close> (3 minutes) apart; the first reading in range is
  written whenever it is at least 3 minutes after \<^verbatim>\<open>datetime.min\<close> (the initial
  \<^verbatim>\<open>prev_idx\<close>) and its row is computed without an exception; and every written row is
  the row of one stored reading alone, computed by \<open>csv_row\<close> from that reading and the
  store: its directly copied fields, such as the air temperature, are the reading's
  own. A skipped reading gets no row. Its values stay in the store, though, and enter
  the windowed fields of the rows written later.
\<close>

theorem generate_bulk_interval:
  assumes "GenerateBulk env s = (rows, err)"
  shows "(\<forall>i j. i < j \<and> j < length rows
            \<longrightarrow> REPORTS_MAXIMUM_FREQUENCY \<le> fst (rows ! j) - fst (rows ! i))
    \<and> (\<forall>report reports d. getslice s datetime_min datetime_max = report # reports
            \<and> REPORTS_MAXIMUM_FREQUENCY \<le> idx report - datetime_min
            \<and> csv_row env s report = Inr d
            \<longrightarrow> (\<exists>more. rows = (idx report, writerow d) # more))
    \<and> (\<forall>(t, row) \<in> set rows. \<exists>r \<in> set s. idx r = t
            \<and> (\<exists>d. csv_row env s r = Inr d \<and> row = writerow d)
            \<and> column row ''Air Temperature''
                = Some (csv_text_of (Some (safe_format ''%.2f'' (temp_out r)))))"
proof (intro conjI allI impI)
  fix i j assume ij: "i < j \<and> j < length rows"
  from assms have "sorted_wrt (\<lambda>a b. REPORTS_MAXIMUM_FREQUENCY \<le> b - a) (map fst rows)"
    unfolding GenerateBulk_def by (rule bulk_loop_gaps [THEN conjunct1])
  with ij have "REPORTS_MAXIMUM_FREQUENCY \<le> map fst rows ! j - map fst rows ! i"
    by (simp add: sorted_wrt_iff_nth_less)
  with ij show "REPORTS_MAXIMUM_FREQUENCY \<le> fst (rows ! j) - fst (rows ! i)"
    by simp
next
  fix report reports d
  assume a: "getslice s datetime_min datetime_max = report # reports
            \<and> REPORTS_MAXIMUM_FREQUENCY \<le> idx report - datetime_min
            \<and> csv_row env s report = Inr d"
  then obtain more where
    "fst (bulk_loop env s datetime_min (report # reports)) = (idx report, writerow d) # more"
    using bulk_loop_first by blast
  with a assms show "\<exists>more. rows = (idx report, writerow d) # more"
    by (simp add: GenerateBulk_def)
next
  from assms have "\<forall>(t, row) \<in> set rows. \<exists>r \<in> set (getslice s datetime_min datetime_max).
      idx r = t \<and> (\<exists>d. csv_row env s r = Inr d \<and> row = writerow d)"
    unfolding GenerateBulk_def by (rule bulk_loop_rows)
  then have "\<forall>(t, row) \<in> set rows. \<exists>r \<in> set s.
      idx r = t \<and> (\<exists>d. csv_row env s r = Inr d \<and> row = writerow d)"
    by (fastforce simp: getslice_def)
  then show "\<forall>(t, row) \<in> set rows. \<exists>r \<in> set s. idx r = t
            \<and> (\<exists>d. csv_row env s r = Inr d \<and> row = writerow d)
            \<and> column row ''Air Temperature''
                = Some (csv_text_of (Some (safe_format ''%.2f'' (temp_out r))))"
    by (fastforce simp: column_writerow fields_mem csv_row_fields)
qed

text \<open>
  The theorem on the sample of 1 June, run on 3 June: the readings of 12:00 and 12:03
  are written, the reading of 12:01 is skipped.
\<close>

theorem generate_bulk_interval_witness:
  "GenerateBulk env_june3 noon
     = ([(idx r_1200, writerow row_1200), (idx r_1203, writerow row_1203)], None)
   \<and> REPORTS_MAXIMUM_FREQUENCY \<le> idx r_1203 - idx r_1200
   \<and> getslice noon datetime_min datetime_max = [r_1200, r_1201, r_1203]
   \<and> REPORTS_MAXIMUM_FREQUENCY \<le> idx r_1200 - datetime_min
   \<and> csv_row env_june3 noon r_1200 = Inr row_1200
   \<and> column (writerow row_1203) ''Air Temperature''
       = Some (csv_text_of (Some (safe_format ''%.2f'' (temp_out r_1203))))"
proof -
  have g: "REPORTS_MAXIMUM_FREQUENCY \<le> idx r_1203 - idx r_1200
      \<and> REPORTS_MAXIMUM_FREQUENCY \<le> idx r_1200 - datetime_min"
    by (simp add: noon_fields time_consts)
  have c: "column (writerow row_1203) ''Air Temperature''
       = Some (csv_text_of (Some (safe_format ''%.2f'' (temp_out r_1203))))"
    by (simp add: column_writerow fields_mem csv_row_fields [OF noon_csv_row(2)])
  from generate_bulk_interval [OF noon_generate_bulk]
    g c noon_generate_bulk noon_slice noon_csv_row(1)
  show ?thesis by blast
qed

text \<open>
  Claim C4 as stated fails in two places. On the sample of 1 June the reading of 12:01
  (50 degrees) is skipped, yet the row written for 12:03 (10 degrees) reports its
  temperature as the maximum of the last 24 hours: the windowed fields are computed
  over the store, not over the written rows. And the first reading in range is not
  always written: a reading one minute after \<^verbatim>\<open>datetime.min\<close> is skipped, and a run
  on 1 June itself ends with UnboundLocalError in \<open>rain_day\<close> before any row is
  written.
\<close>

theorem generate_bulk_skipped_value_written:
  "map fst (fst (GenerateBulk env_june3 noon)) = [idx r_1200, idx r_1203]
   \<and> column (snd (fst (GenerateBulk env_june3 noon) ! 1)) ''Max. Temp. (last 24hr)''
       = Some (Text (Formatted ''%.2f'' 50))
   \<and> temp_out r_1200 = Some 10 \<and> temp_out r_1201 = Some 50 \<and> temp_out r_1203 = Some 10
   \<and> GenerateBulk env_june3 [r_year1] = ([], None)
   \<and> GenerateBulk env_june1 noon = ([], Some UnboundLocalError)"
  by (simp add: noon_generate_bulk row_1203_max noon_fields year1_generate_bulk
      noon_generate_bulk_today)

section \<open>Zero values are written as empty fields\<close>

text \<open>
  Claim C10. \<open>safe_format\<close> returns \<^verbatim>\<open>None\<close> for \<^verbatim>\<open>None\<close> and for the number zero
  alike, and the formatted string for every other number. In a row of the generator a
  wind speed of zero, a wind direction of 0 degrees and an hourly rain of zero are
  therefore written as the empty text, as a missing value is; a non-zero value (here
  the wind gust) is written with its format.
\<close>

theorem safe_format_zero_blank:
  "safe_format fmt None = PyNone \<and> safe_format fmt (Some 0) = PyNone
   \<and> (v \<noteq> 0 \<longrightarrow> safe_format fmt (Some v) = Formatted fmt v)
   \<and> (csv_row env s report = Inr d \<longrightarrow>
        (wind_ave report = Some 0 \<or> wind_ave report = None
           \<longrightarrow> column (writerow d) ''Wind Speed'' = Some Empty)
        \<and> (wind_gust report = Some v \<and> v \<noteq> 0
           \<longrightarrow> column (writerow d) ''Wind Gust'' = Some (Text (Formatted ''%.2f'' v)))
        \<and> (winddir_degrees env (wind_dir report) = Some 0 \<or> winddir_degrees env (wind_dir report) = None
           \<longrightarrow> column (writerow d) ''Wind Direction'' = Some Empty)
        \<and> (rain_rate s report = Inr 0 \<longrightarrow> column (writerow d) ''Rainfall Rate'' = Some Empty))"
proof (intro conjI impI)
  show "safe_format fmt None = PyNone" "safe_format fmt (Some 0) = PyNone"
    by (simp_all add: safe_format_def truthy_def)
next
  assume "v \<noteq> 0"
  then show "safe_format fmt (Some v) = Formatted fmt v"
    by (simp add: safe_format_def truthy_def)
next
  assume d: "csv_row env s report = Inr d" and "wind_ave report = Some 0 \<or> wind_ave report = None"
  then have "\<not> truthy (wind_ave report)" by (auto simp: truthy_def)
  then show "column (writerow d) ''Wind Speed'' = Some Empty"
    by (simp add: column_writerow fields_mem csv_row_fields [OF d] safe_format_blank)
next
  assume d: "csv_row env s report = Inr d" and "wind_gust report = Some v \<and> v \<noteq> 0"
  then show "column (writerow d) ''Wind Gust'' = Some (Text (Formatted ''%.2f'' v))"
    by (simp add: column_writerow fields_mem csv_row_fields [OF d] safe_format_def truthy_def
        csv_text_of_def)
next
  assume d: "csv_row env s report = Inr d"
    and "winddir_degrees env (wind_dir report) = Some 0 \<or> winddir_degrees env (wind_dir report) = None"
  then have "\<not> truthy (winddir_degrees env (wind_dir report))" by (auto simp: truthy_def)
  then show "column (writerow d) ''Wind Direction'' = Some Empty"
    by (simp add: column_writerow fields_mem csv_row_fields [OF d] safe_format_blank)
next
  assume d: "csv_row env s report = Inr d" and "rain_rate s report = Inr 0"
  with csv_row_fields(5) [OF d]
  have "map_of d ''Rainfall Rate'' = Some (safe_format ''%.2f'' (Some 0))" by auto
  then show "column (writerow d) ''Rainfall Rate'' = Some Empty"
    by (simp add: column_writerow fields_mem safe_format_blank truthy_def)
qed

text \<open>
  The theorem on the 12:00 reading of the sample: no wind, direction 0 (north), no
  rain in the last hour, a gust of 2.
\<close>

theorem safe_format_zero_blank_witness:
  "safe_format ''%.2f'' (Some 2) = Formatted ''%.2f'' 2
   \<and> csv_row env_june3 noon r_1200 = Inr row_1200
   \<and> wind_ave r_1200 = Some 0
   \<and> column (writerow row_1200) ''Wind Speed'' = Some Empty
   \<and> wind_gust r_1200 = Some 2
   \<and> column (writerow row_1200) ''Wind Gust'' = Some (Text (Formatted ''%.2f'' 2))
   \<and> winddir_degrees env_june3 (wind_dir r_1200) = Some 0
   \<and> column (writerow row_1200) ''Wind Direction'' = Some Empty
   \<and> rain_rate noon r_1200 = Inr 0
   \<and> column (writerow row_1200) ''Rainfall Rate'' = Some Empty"
proof -
  have f: "wind_ave r_1200 = Some 0 \<and> wind_gust r_1200 = Some 2
      \<and> winddir_degrees env_june3 (wind_dir r_1200) = Some 0"
    by (simp add: noon_fields env_june3_simps)
  have n: "(2 :: real) \<noteq> 0" by simp
  from safe_format_zero_blank [where fmt = "''%.2f''" and v = 2 and env = env_june3
      and s = noon and report = r_1200 and d = row_1200]
    f n noon_csv_row(1) noon_rain_rate(1)
  show ?thesis by blast
qed

section \<open>Properties of formatting\<close>



lemma dec_digits_length:
  "n < 10 ^ w \<Longrightarrow> 0 < w \<Longrightarrow> length (dec_digits n) \<le> w"
proof (induction n arbitrary: w rule: dec_digits.induct)
  case (1 n)
  show ?case
  proof (cases "n < 10")
    case True
    with "1.prems" show ?thesis by (simp add: dec_digits.simps)
  next
    case False
    with "1.prems" have w: "1 < w"
      by (cases "w = 1") auto
    then obtain v where v: "w = Suc v" "0 < v" by (cases w) auto
    with "1.prems" have "n div 10 < 10 ^ v"
      by (simp add: less_mult_imp_div_less mult.commute)
    with "1.IH" [OF False this v(2)] False v show ?thesis
      by (simp add: dec_digits.simps [of n])
  qed
qed

lemma py_percent_0d_width:
  "0 \<le> n \<Longrightarrow> n < 10 ^ w \<Longrightarrow> 0 < w \<Longrightarrow> length (py_percent_0d w n) = w"
proof -
  assume a: "0 \<le> n" "n < 10 ^ w" "0 < w"
  then have "nat n < 10 ^ w"
    by (metis nat_less_iff of_nat_numeral of_nat_power)
  then have "length (dec_digits (nat n)) \<le> w"
    using a(3) by (rule dec_digits_length)
  with a show ?thesis by (simp add: py_percent_0d_def)
qed

lemma py_percent_0d_width_negative:
  "n < 0 \<Longrightarrow> - (10 ^ (w - 1)) < n \<Longrightarrow> 1 < w \<Longrightarrow> length (py_percent_0d w n) = w"
proof -
  assume a: "n < 0" "- (10 ^ (w - 1)) < n" "1 < w"
  then have "- n < 10 ^ (w - 1)" by simp
  then have "nat (- n) < 10 ^ (w - 1)"
    by (metis nat_less_iff of_nat_numeral of_nat_power a(1) neg_0_le_iff_le less_imp_le)
  then have "length (dec_digits (nat (- n))) \<le> w - 1"
    using a(3) by (intro dec_digits_length) auto
  with a show ?thesis by (simp add: py_percent_0d_def)
qed

section \<open>Properties of the CWOP transmission\<close>

lemma cwop_transmit_result:
  "fst (cwop_transmit s login packet) =
     (case find (\<lambda>f. f \<noteq> None) (take 4 (faults s)) of
        None \<Rightarrow> (True, ''OK'')
      | Some f \<Rightarrow> (False, the f))"
  by (auto simp: cwop_transmit_def sendall_def socket_call_def
      split: list.splits option.splits prod.splits)



section \<open>Evaluation of the services on the sample data\<close>

lemma py_int_samples: "py_int ''000'' = Inr 0" "py_int ''...'' = Inl ValueError"
  by (simp_all add: py_int_def strip_def py_isspace_def unsigned_int_def digit_of_def)


lemma prepared_payload:
  "cwop_payload None (map_of prepared) = Inr
     (''user EW9999 pass -1 vers pywws 18.4.2'' @ [CHR 0x0A],
      ''EW9999>APRS,TCPIP*:@011203z5130.06N/00008.52E_090/005g010t050r000p012P003h50b10132.pywws-18.4.2''
        @ [CHR 0x0A])"
  by (simp add: cwop_payload_def login_template_def packet_template_def use_illuminance_def
      prepared_def encode_ascii_def is_ascii_def)

lemma pad_samples:
  "py_percent_0d 3 (- 5) = ''-05''" "py_percent_0d 3 72 = ''072''" "py_percent_0d 6 508 = ''000508''"
  by code_simp+

section \<open>The CWOP wire format\<close>




section \<open>The result of \<open>upload_data\<close>\<close>

text \<open>
  Claim C7, as amended. When the login and packet lines can be built from the prepared
  data, the CWOP \<^verbatim>\<open>upload_data\<close> returns a pair: \<^verbatim>\<open>(True, 'OK')\<close> when none of its
  four socket calls raises, and otherwise \<^verbatim>\<open>(False, repr(ex))\<close> for the first
  exception. The OpenWeatherMap \<^verbatim>\<open>upload_data\<close> always returns a pair:
  \<^verbatim>\<open>(True, 'OK')\<close> if and only if the post returns a response of status 204,
  \<^verbatim>\<open>(False, 'http status: <status> <text>')\<close> for a response of any other status, and
  \<^verbatim>\<open>(False, str(ex))\<close> when the post raises.
\<close>

theorem upload_data_result:
  "(cwop_payload ws_type pd = Inr (login, packet) \<longrightarrow>
      fst (cwop_upload_data ws_type s pd) =
        (case find (\<lambda>f. f \<noteq> None) (take 4 (faults s)) of
           None \<Rightarrow> Inr (True, ''OK'')
         | Some f \<Rightarrow> Inr (False, the f)))
   \<and> (\<exists>ok msg. owm_upload_data post data = Inr (ok, msg))
   \<and> (owm_upload_data post data = Inr (True, ''OK'')
        \<longleftrightarrow> (\<exists>rsp. post ''http://api.openweathermap.org/data/3.0/measurements'' [data] = Returns rsp
               \<and> status_code rsp = 204))
   \<and> (post ''http://api.openweathermap.org/data/3.0/measurements'' [data] = Returns rsp
        \<and> status_code rsp \<noteq> 204 \<longrightarrow>
        owm_upload_data post data
          = Inr (False, ''http status: '' @ py_str_int (status_code rsp) @ '' '' @ rsp_text rsp))
   \<and> (post ''http://api.openweathermap.org/data/3.0/measurements'' [data] = Raises ex \<longrightarrow>
        owm_upload_data post data = Inr (False, ex))"
proof (intro conjI impI)
  assume "cwop_payload ws_type pd = Inr (login, packet)"
  then show "fst (cwop_upload_data ws_type s pd) =
        (case find (\<lambda>f. f \<noteq> None) (take 4 (faults s)) of
           None \<Rightarrow> Inr (True, ''OK'')
         | Some f \<Rightarrow> Inr (False, the f))"
    using cwop_transmit_result [of s login packet]
    by (cases "cwop_transmit s login packet") (simp add: cwop_upload_data_def split: option.splits)
next
  show "\<exists>ok msg. owm_upload_data post data = Inr (ok, msg)"
    by (auto simp: owm_upload_data_def split: http_result.splits)
next
  show "owm_upload_data post data = Inr (True, ''OK'')
        \<longleftrightarrow> (\<exists>rsp. post ''http://api.openweathermap.org/data/3.0/measurements'' [data] = Returns rsp
               \<and> status_code rsp = 204)"
    by (auto simp: owm_upload_data_def split: http_result.splits)
next
  assume "post ''http://api.openweathermap.org/data/3.0/measurements'' [data] = Returns rsp
        \<and> status_code rsp \<noteq> 204"
  then show "owm_upload_data post data
          = Inr (False, ''http status: '' @ py_str_int (status_code rsp) @ '' '' @ rsp_text rsp)"
    by (simp add: owm_upload_data_def)
next
  assume "post ''http://api.openweathermap.org/data/3.0/measurements'' [data] = Raises ex"
  then show "owm_upload_data post data = Inr (False, ex)"
    by (simp add: owm_upload_data_def)
qed

text \<open>
  The theorem on a CWOP session whose acknowledgement times out and on one without
  faults, and on OpenWeatherMap sessions that answer 401, refuse the connection, and
  answer 204.
\<close>

theorem upload_data_result_witness:
  "fst (cwop_upload_data None timed_out (map_of prepared)) = Inr (False, ''timeout()'')
   \<and> fst (cwop_upload_data None idle (map_of prepared)) = Inr (True, ''OK'')
   \<and> owm_upload_data (post_status 401 ''Unauthorized'') () = Inr (False, ''http status: 401 Unauthorized'')
   \<and> owm_upload_data post_refused () = Inr (False, ''Connection refused'')
   \<and> owm_upload_data (post_status 204 []) () = Inr (True, ''OK'')"
proof -
  have a: "post_status 401 ''Unauthorized'' ''http://api.openweathermap.org/data/3.0/measurements'' [()]
        = Returns \<lparr>status_code = 401, rsp_text = ''Unauthorized'', json = None\<rparr>
      \<and> status_code \<lparr>status_code = 401, rsp_text = ''Unauthorized'', json = None\<rparr> \<noteq> 204"
    by (simp add: post_status_def)
  have b: "post_refused ''http://api.openweathermap.org/data/3.0/measurements'' [()]
        = Raises ''Connection refused''"
    by (simp add: post_refused_def)
  have c: "\<exists>rsp. post_status 204 [] ''http://api.openweathermap.org/data/3.0/measurements'' [()]
        = Returns rsp \<and> status_code rsp = 204"
    by (simp add: post_status_def)
  have d: "py_str_int 401 = ''401''"
    by (simp add: py_str_int_def dec_digits.simps digit_char_def)
  from upload_data_result [where ws_type = None and pd = "map_of prepared" and s = timed_out
      and post = "post_status 401 ''Unauthorized''" and data = "()"
      and rsp = "\<lparr>status_code = 401, rsp_text = ''Unauthorized'', json = None\<rparr>"]
    upload_data_result [where ws_type = None and pd = "map_of prepared" and s = idle
      and post = post_refused and data = "()" and ex = "''Connection refused''"]
    upload_data_result [where post = "post_status 204 []" and data = "()"]
    prepared_payload a b c d
  show ?thesis
    by (simp add: timed_out_def idle_def)
qed

text \<open>
  Claim C7 as stated fails for the CWOP service: the lines are built before the
  \<^verbatim>\<open>try\<close>, so prepared data without a key of the format (the default argument
  \<^verbatim>\<open>{}\<close>) raises KeyError, and on a 3080 station a \<^verbatim>\<open>rain_hour\<close> that is the sentinel
  \<^verbatim>\<open>...\<close> raises ValueError in \<^verbatim>\<open>int\<close>. Nothing is sent.
\<close>

theorem cwop_upload_data_raises:
  "cwop_upload_data None idle Map.empty = (Inl (KeyError ''designator''), idle)
   \<and> cwop_upload_data (Some ''3080'') idle ((map_of prepared)(''rain_hour'' \<mapsto> ''...''))
       = (Inl ValueError, idle)"
  by (simp add: cwop_upload_data_def cwop_payload_def login_template_def use_illuminance_def
      prepared_def py_int_samples encode_ascii_def is_ascii_def)

section \<open>Registration with OpenWeatherMap\<close>




section \<open>The interval of the CWOP service\<close>

lemma upload_attempts_gaps:
  assumes "0 \<le> interval"
  shows "sorted_wrt (\<lambda>a b. interval \<le> fst b - fst a) (upload_attempts interval previous events)
     \<and> (\<forall>a \<in> set (upload_attempts interval previous events).
           previous = None \<or> interval \<le> fst a - the previous)"
proof (induction events arbitrary: previous)
  case Nil
  then show ?case by simp
next
  case (Cons e events)
  obtain t ok where e: "e = (t, ok)" by (cases e)
  show ?case
  proof (cases "previous = None \<or> interval \<le> t - the previous")
    case True
    from Cons [of "Some t"] have ih:
      "sorted_wrt (\<lambda>a b. interval \<le> fst b - fst a) (upload_attempts interval (Some t) events)"
      "\<forall>a \<in> set (upload_attempts interval (Some t) events). interval \<le> fst a - t"
      by simp_all
    have "\<forall>a \<in> set (upload_attempts interval (Some t) events).
        previous = None \<or> interval \<le> fst a - the previous"
      using ih(2) True assms by fastforce
    with ih True e show ?thesis by auto
  next
    case False
    then have eq: "upload_attempts interval previous (e # events)
        = upload_attempts interval previous events"
      using e by auto
    show ?thesis unfolding eq by (rule Cons)
  qed
qed

text \<open>
  Claim C9. The interval of the CWOP service is 290 seconds. Under the throttle of the
  spec, any two upload attempts start at least 290 seconds apart, and at least 290
  seconds after the start of the previous attempt, whether attempts succeed or fail;
  two reading events 60 seconds apart, with no attempt before, give exactly one
  attempt.
\<close>

theorem cwop_throttle:
  "cwop_interval = 290 * 1000000
   \<and> (\<forall>i j. i < j \<and> j < length (upload_attempts cwop_interval previous events) \<longrightarrow>
         cwop_interval \<le> fst (upload_attempts cwop_interval previous events ! j)
                          - fst (upload_attempts cwop_interval previous events ! i))
   \<and> (previous = Some p \<longrightarrow>
         (\<forall>a \<in> set (upload_attempts cwop_interval previous events). cwop_interval \<le> fst a - p))
   \<and> upload_attempts cwop_interval None [(t, ok), (t + 60 * 1000000, ok')] = [(t, ok)]"
proof -
  have pos: "0 \<le> cwop_interval" by (simp add: cwop_interval_def)
  note g = upload_attempts_gaps [OF pos, of previous events]
  have 1: "\<forall>i j. i < j \<and> j < length (upload_attempts cwop_interval previous events) \<longrightarrow>
         cwop_interval \<le> fst (upload_attempts cwop_interval previous events ! j)
                          - fst (upload_attempts cwop_interval previous events ! i)"
    using g by (simp add: sorted_wrt_iff_nth_less)
  have 2: "previous = Some p \<longrightarrow>
         (\<forall>a \<in> set (upload_attempts cwop_interval previous events). cwop_interval \<le> fst a - p)"
    using g by auto
  have 3: "upload_attempts cwop_interval None [(t, ok), (t + 60 * 1000000, ok')] = [(t, ok)]"
    by (simp add: cwop_interval_def)
  from 1 2 3 show ?thesis by (simp add: cwop_interval_def)
qed

text \<open>
  The theorem on three events 290, 350 and 600 seconds after a previous attempt: the
  attempt at 290 seconds fails, and the event at 350 seconds is still skipped.
\<close>

theorem cwop_throttle_witness:
  "upload_attempts cwop_interval (Some 0)
       [(290000000, False), (350000000, True), (600000000, True)]
     = [(290000000, False), (600000000, True)]
   \<and> cwop_interval \<le> 600000000 - 290000000
   \<and> cwop_interval \<le> 290000000 - 0
   \<and> upload_attempts cwop_interval None [(0, True), (0 + 60 * 1000000, True)] = [(0, True)]"
proof -
  have e: "upload_attempts cwop_interval (Some 0)
       [(290000000, False), (350000000, True), (600000000, True)]
     = [(290000000, False), (600000000, True)]"
    by (simp add: cwop_interval_def)
  from cwop_throttle [where previous = "Some 0" and p = 0
      and events = "[(290000000, False), (350000000, True), (600000000, True)]"
      and t = 0 and ok = True and ok' = True]
  show ?thesis unfolding e by force
qed

section \<open>The widths of the CWOP template\<close>

lemma resolve_field_zero_pad:
  "output_format f = ZeroPad w \<Longrightarrow> resolve_field f (Some (IntValue n)) = py_percent_0d w n"
  by (simp add: resolve_field_def render_def)

lemma template_sentinels:
  "f \<in> set (cwop_template ws_type altitude_param) \<Longrightarrow> output_format f = ZeroPad w \<Longrightarrow>
     field_name f \<noteq> ''altitude'' \<Longrightarrow> length (fallback f) = w \<and> 1 < w"
  by (auto simp: cwop_template_def field_def split: if_splits)

text \<open>
  Claim C5, as amended. For every field of the CWOP template with a format
  \<^verbatim>\<open>'%0Nd'\<close>, other than \<^verbatim>\<open>altitude\<close>: the fallback has exactly N characters, a
  missing value resolves to the fallback, and a value of at most N digits (N - 1
  digits when negative) resolves to exactly N characters. Resolution returns one
  entry for each field of the template, in the template's order.
\<close>

theorem cwop_template_widths:
  "(\<forall>f \<in> set (cwop_template ws_type altitude_param).
      \<forall>w. output_format f = ZeroPad w \<and> field_name f \<noteq> ''altitude'' \<longrightarrow>
        length (fallback f) = w \<and> resolve_field f None = fallback f
        \<and> (\<forall>n. (0 \<le> n \<and> n < 10 ^ w) \<or> (n < 0 \<and> - (10 ^ (w - 1)) < n) \<longrightarrow>
              length (resolve_field f (Some (IntValue n))) = w))
   \<and> map fst (resolve (cwop_template ws_type altitude_param) values)
       = map field_name (cwop_template ws_type altitude_param)"
proof (intro conjI ballI allI impI)
  fix f w
  assume f: "f \<in> set (cwop_template ws_type altitude_param)"
    and w: "output_format f = ZeroPad w \<and> field_name f \<noteq> ''altitude''"
  from template_sentinels [OF f] w show "length (fallback f) = w" by simp
  show "resolve_field f None = fallback f" by (simp add: resolve_field_def)
  fix n :: int
  assume n: "(0 \<le> n \<and> n < 10 ^ w) \<or> (n < 0 \<and> - (10 ^ (w - 1)) < n)"
  from template_sentinels [OF f] w have "1 < w" by simp
  with n have "length (py_percent_0d w n) = w"
    using py_percent_0d_width [of n w] py_percent_0d_width_negative [of n w] by auto
  with w show "length (resolve_field f (Some (IntValue n))) = w"
    by (simp add: resolve_field_zero_pad)
next
  show "map fst (resolve (cwop_template ws_type altitude_param) values)
       = map field_name (cwop_template ws_type altitude_param)"
    by (simp add: resolve_def comp_def)
qed

text \<open>
  The theorem on the outside temperature of the base template: \<^verbatim>\<open>...\<close> for a missing
  value, three characters for 72 and for -5 degrees.
\<close>

theorem cwop_template_widths_witness:
  "field ''temp_out'' Calc (ZeroPad 3) ''...'' \<in> set (cwop_template None None)
   \<and> length (fallback (field ''temp_out'' Calc (ZeroPad 3) ''...'')) = 3
   \<and> resolve_field (field ''temp_out'' Calc (ZeroPad 3) ''...'') None = ''...''
   \<and> length (resolve_field (field ''temp_out'' Calc (ZeroPad 3) ''...'') (Some (IntValue 72))) = 3
   \<and> length (resolve_field (field ''temp_out'' Calc (ZeroPad 3) ''...'') (Some (IntValue (- 5)))) = 3
   \<and> map fst (resolve (cwop_template None None) (\<lambda>k. None))
       = [''idx'', ''lat_loran'', ''lon_loran'', ''wind_dir'', ''wind_ave'', ''wind_gust'',
          ''temp_out'', ''hum_out'', ''rel_pressure'', ''rain_hour'', ''rain_24hr'', ''rain_day'']"
proof -
  let ?f = "field ''temp_out'' Calc (ZeroPad 3) ''...''"
  have m: "?f \<in> set (cwop_template None None)"
    by (simp add: cwop_template_def)
  have o: "output_format ?f = ZeroPad 3 \<and> field_name ?f \<noteq> ''altitude''"
    by (simp add: field_def)
  have n: "(0 \<le> (72 :: int) \<and> (72 :: int) < 10 ^ 3) \<or> ((72 :: int) < 0 \<and> - (10 ^ (3 - 1)) < (72 :: int))"
    "(0 \<le> (- 5 :: int) \<and> (- 5 :: int) < 10 ^ 3) \<or> ((- 5 :: int) < 0 \<and> - (10 ^ (3 - 1)) < (- 5 :: int))"
    by simp_all
  have k: "map field_name (cwop_template None None)
       = [''idx'', ''lat_loran'', ''lon_loran'', ''wind_dir'', ''wind_ave'', ''wind_gust'',
          ''temp_out'', ''hum_out'', ''rel_pressure'', ''rain_hour'', ''rain_24hr'', ''rain_day'']"
    by (simp add: cwop_template_def field_def)
  from cwop_template_widths [of None None "\<lambda>k. None"] m o n k
  show ?thesis by (simp add: field_def)
qed

text \<open>
  Claim C5 as stated fails for three fields. \<^verbatim>\<open>altitude\<close> has the format \<^verbatim>\<open>'%06d'\<close>
  and an empty fallback; \<^verbatim>\<open>lat_loran\<close> and \<^verbatim>\<open>lon_loran\<close> have the format \<^verbatim>\<open>'%s'\<close>
  and the fallback \<^verbatim>\<open>c\<close> of one character, where a position has eight or nine.
\<close>

theorem cwop_template_fallback_widths:
  "map_of (resolve (cwop_template None (Some ''155'')) (\<lambda>k. None)) ''altitude'' = Some []
   \<and> map_of (resolve (cwop_template None (Some ''155'')) (\<lambda>k. Some (IntValue 508))) ''altitude''
       = Some ''000508''
   \<and> map_of (resolve (cwop_template None None) (\<lambda>k. None)) ''lat_loran'' = Some ''c''
   \<and> map_of (resolve (cwop_template None None) (\<lambda>k. Some (StrValue ''5130.06N''))) ''lat_loran''
       = Some ''5130.06N''"
  by (simp add: resolve_def cwop_template_def field_def resolve_field_def render_def pad_samples)

end
